theory Spec2Isabelle
  imports Main
begin

section \<open>Common data of \<^verbatim>\<open>via.cpp\<close>\<close>

text \<open>
  The development follows the Linux build of \<^verbatim>\<open>src/via/via.cpp\<close> (the branch under
  \<^verbatim>\<open>#elif __GNUC__\<close> and the \<^verbatim>\<open>#else\<close> arms of \<^verbatim>\<open>#ifdef _WIN32\<close>).
  C strings are character lists; a \<^verbatim>\<open>char\<close> buffer is the list of characters in front
  of its terminator.  Where the C code would read a buffer that holds no terminator, read
  past the end of a string or write past the end of a buffer, the model returns the fault
  \<open>MemoryFault\<close> instead of a value.
\<close>

definition MAX_STRING_LENGTH :: nat where
  "MAX_STRING_LENGTH = 1024"

datatype fault = MemoryFault | JsonLogicError

section \<open>\<^verbatim>\<open>GenerateLibraryPath\<close>\<close>

text \<open>
  \<^verbatim>\<open>strrchr(s, c)\<close> followed by \<^verbatim>\<open>ptr++; *ptr = '\0'\<close>: the text up to and including
  the last occurrence of \<open>c\<close>, or \<open>None\<close> when \<^verbatim>\<open>strrchr\<close> returns \<^verbatim>\<open>NULL\<close>.
\<close>

definition strrchr_cut :: "char \<Rightarrow> string \<Rightarrow> string option" where
  "strrchr_cut c s =
     (if c \<in> set s then Some (rev (dropWhile (\<lambda>x. x \<noteq> c) (rev s))) else None)"

text \<open>
  The idiom that occurs twice in the function, first under the comment
  ``Remove json file from json path'' and then under ``Go up a folder in the json path'':
  look for the last backslash, and only when there is none for the last slash; cut the
  buffer right after the separator found; leave it alone when there is neither.
\<close>

definition cut_after_separator :: "string \<Rightarrow> string" where
  "cut_after_separator final_path =
     (case strrchr_cut (CHR 0x5C) final_path of
        Some p \<Rightarrow> p
      | None \<Rightarrow>
          (case strrchr_cut CHR ''/'' final_path of
             Some p \<Rightarrow> p
           | None \<Rightarrow> final_path))"

text \<open>
  The first \<^verbatim>\<open>while\<close> loop.  The second argument is the text at \<^verbatim>\<open>&library_info[i]\<close>;
  each round consumes three characters (\<^verbatim>\<open>i += 3\<close>) and cuts \<open>final_path\<close> again.
\<close>

fun skip_parent :: "string \<Rightarrow> string \<Rightarrow> string \<times> string" where
  "skip_parent final_path (a # b # c # rest) =
     (if a = CHR ''.'' \<and> b = CHR ''.'' \<and> (c = CHR 0x5C \<or> c = CHR ''/'')
      then skip_parent (cut_after_separator final_path) rest
      else (final_path, a # b # c # rest))"
| "skip_parent final_path info = (final_path, info)"

text \<open>The second \<^verbatim>\<open>while\<close> loop (\<^verbatim>\<open>i += 2\<close> for each leading \<^verbatim>\<open>./\<close> or \<^verbatim>\<open>.\\<close>).\<close>

fun skip_current :: "string \<Rightarrow> string" where
  "skip_current (a # b # rest) =
     (if a = CHR ''.'' \<and> (b = CHR 0x5C \<or> b = CHR ''/'')
      then skip_current rest
      else a # b # rest)"
| "skip_current info = info"

text \<open>
  \<open>None\<close> for a pointer argument is \<^verbatim>\<open>NULL\<close>.  The result is \<open>Inr None\<close> when the
  function returns \<^verbatim>\<open>false\<close> and \<open>Inr (Some p)\<close> when it returns \<^verbatim>\<open>true\<close> with the text
  \<open>p\<close> in \<^verbatim>\<open>library_location\<close>.  The output buffer is taken to hold \<open>max_length\<close> bytes,
  as at every call in the file, and is never \<^verbatim>\<open>NULL\<close> there.  The faults are:
  \<^item> \<^verbatim>\<open>strncpy(final_path, json_location, len)\<close> writes no terminator when
    \<open>json_location\<close> has \<open>len\<close> or more characters, and \<^verbatim>\<open>strrchr\<close> then reads an
    unterminated array;
  \<^item> \<^verbatim>\<open>library_info[1]\<close> is read behind the terminator of an empty \<open>library_info\<close>;
  \<^item> the absolute branch leaves \<^verbatim>\<open>library_location\<close> unterminated when \<open>library_info\<close>
    has \<open>len\<close> or more characters;
  \<^item> the relative branch writes \<^verbatim>\<open>MAX_STRING_LENGTH - 1\<close> bytes with \<^verbatim>\<open>strncpy\<close>, without
    a terminator when \<open>final_path\<close> is that long, and \<^verbatim>\<open>strncat\<close> then appends up to \<open>len\<close>
    characters and a terminator behind \<open>final_path\<close>.
\<close>

definition GenerateLibraryPath ::
  "string option \<Rightarrow> string option \<Rightarrow> nat \<Rightarrow> fault + string option" where
  "GenerateLibraryPath json_location library_info max_length =
     (let len = (if max_length > MAX_STRING_LENGTH then MAX_STRING_LENGTH else max_length)
      in case (json_location, library_info) of
           (Some json, Some info) \<Rightarrow>
             if len \<le> length json then Inl MemoryFault
             else
               let final_path = cut_after_separator json
               in (case info of
                     [] \<Rightarrow> Inl MemoryFault
                   | c0 # after0 \<Rightarrow>
                       if c0 = CHR 0x5C \<or> c0 = CHR ''/'' \<or> take 1 after0 = '':''
                       then (if len \<le> length info then Inl MemoryFault
                             else Inr (Some info))
                       else
                         (case skip_parent final_path info of
                            (folder, after_parents) \<Rightarrow>
                              let tail = take len (skip_current after_parents)
                              in if max_length < MAX_STRING_LENGTH - 1
                                    \<or> MAX_STRING_LENGTH - 1 \<le> length folder
                                    \<or> max_length < length folder + length tail + 1
                                 then Inl MemoryFault
                                 else Inr (Some (folder @ tail))))
         | _ \<Rightarrow> Inr None)"

section \<open>The report\<close>

text \<open>
  The program writes its report into \<^verbatim>\<open>global_items.html_file_stream\<close> through
  \<^verbatim>\<open>PrintBeginTable\<close>, \<^verbatim>\<open>PrintBeginTableRow\<close>, \<^verbatim>\<open>PrintTableElement\<close>,
  \<^verbatim>\<open>PrintEndTableRow\<close> and \<^verbatim>\<open>PrintEndTable\<close>.  The model keeps what these calls are
  given, not the HTML: a report is the list of tables and rows in the order of the calls,
  and every function that prints returns the part of the report it wrote.
\<close>

datatype ElementAlign = ALIGN_LEFT | ALIGN_CENTER | ALIGN_RIGHT

type_synonym element = "string \<times> ElementAlign"

datatype report_item = BeginTable string nat | Row "element list" | EndTable

text \<open>\<^verbatim>\<open>PrintTableElement(s)\<close> with the default alignment, and with \<^verbatim>\<open>ALIGN_RIGHT\<close>.\<close>

definition el :: "string \<Rightarrow> element" where
  "el s = (s, ALIGN_LEFT)"

definition er :: "string \<Rightarrow> element" where
  "er s = (s, ALIGN_RIGHT)"

text \<open>Decimal text of a number, as \<^verbatim>\<open>std::to_string\<close> and \<^verbatim>\<open>%d\<close> print it.\<close>

function decimal :: "nat \<Rightarrow> string" where
  "decimal n =
     (if n < 10 then [''0123456789'' ! n]
      else decimal (n div 10) @ [''0123456789'' ! (n mod 10)])"
  by pat_completeness auto
termination
  by (relation "measure id") auto

declare decimal.simps [simp del]

text \<open>
  \<^verbatim>\<open>snprintf(buffer, MAX_STRING_LENGTH - 1, ...)\<close> keeps at most
  \<^verbatim>\<open>MAX_STRING_LENGTH - 2\<close> characters of the formatted text.
\<close>

definition snprintf :: "string \<Rightarrow> string" where
  "snprintf formatted = take (MAX_STRING_LENGTH - 2) formatted"

text \<open>
  \<^verbatim>\<open>s.c_str()\<close> handed to a C function: the characters in front of the first NUL.
\<close>

definition c_str :: "string \<Rightarrow> string" where
  "c_str s = takeWhile (\<lambda>c. c \<noteq> CHR 0x00) s"

text \<open>\<^verbatim>\<open>s.find(c)\<close> of \<^verbatim>\<open>std::string\<close>; \<open>None\<close> is \<^verbatim>\<open>npos\<close>.\<close>

definition find_char :: "char \<Rightarrow> string \<Rightarrow> nat option" where
  "find_char c s = (if c \<in> set s then Some (length (takeWhile (\<lambda>x. x \<noteq> c) s)) else None)"

section \<open>The layer settings file: \<^verbatim>\<open>TrimWhitespace\<close> and \<^verbatim>\<open>PrintSettingsJsonInfo\<close>\<close>

text \<open>
  \<^verbatim>\<open>TrimWhitespace(str, whitespace)\<close>: \<^verbatim>\<open>find_first_not_of\<close>, the early return of the
  empty text, \<^verbatim>\<open>find_last_not_of\<close> and \<^verbatim>\<open>substr(strBegin, strEnd - strBegin + 1)\<close>.
\<close>

definition default_whitespace :: string where
  "default_whitespace = [CHR '' '', CHR 0x09, CHR 0x0A, CHR 0x0D]"

definition TrimWhitespace :: "string \<Rightarrow> string \<Rightarrow> string" where
  "TrimWhitespace str whitespace =
     (let strBegin = length (takeWhile (\<lambda>c. c \<in> set whitespace) str)
      in if strBegin = length str then []
         else
           let strEnd = length str - 1 - length (takeWhile (\<lambda>c. c \<in> set whitespace) (rev str));
               strRange = strEnd - strBegin + 1
           in take strRange (drop strBegin str))"

record SettingPair =
  name :: string
  "value" :: string

text \<open>
  \<^verbatim>\<open>std::map<std::string, std::vector<SettingPair>>\<close> as the list of its entries in the
  order in which the map iterates over them: ascending keys, compared like
  \<^verbatim>\<open>std::string\<close> compares (byte by byte, a proper prefix first).
\<close>

type_synonym settings_map = "(string \<times> SettingPair list) list"

fun string_less :: "string \<Rightarrow> string \<Rightarrow> bool" where
  "string_less [] [] = False"
| "string_less [] (b # bs) = True"
| "string_less (a # as) [] = False"
| "string_less (a # as) (b # bs) =
     ((of_char a :: nat) < of_char b \<or> (a = b \<and> string_less as bs))"

text \<open>
  The end of the loop body: \<^verbatim>\<open>settings.find(setting_layer)\<close>, then either a new
  one-element vector stored under the key or \<^verbatim>\<open>push_back\<close> on the vector found.
\<close>

fun settings_add :: "string \<Rightarrow> SettingPair \<Rightarrow> settings_map \<Rightarrow> settings_map" where
  "settings_add setting_layer new_pair [] = [(setting_layer, [new_pair])]"
| "settings_add setting_layer new_pair ((k, cur_vector) # rest) =
     (if setting_layer = k then (k, cur_vector @ [new_pair]) # rest
      else if string_less setting_layer k then (setting_layer, [new_pair]) # (k, cur_vector) # rest
      else (k, cur_vector) # settings_add setting_layer new_pair rest)"

text \<open>The body of the \<^verbatim>\<open>while (settings_stream->good())\<close> loop for one line read.\<close>

definition settings_line :: "string \<Rightarrow> settings_map \<Rightarrow> settings_map" where
  "settings_line cur_line settings =
     (let trimmed_line = TrimWhitespace cur_line default_whitespace
      in if length trimmed_line = 0 \<or> take 1 trimmed_line = ''#'' then settings
         else
           (case find_char CHR ''='' trimmed_line of
              None \<Rightarrow> settings
            | Some equal_loc \<Rightarrow>
                let before_equal = take equal_loc trimmed_line;
                    after_equal = drop (equal_loc + 1) trimmed_line;
                    new_value = TrimWhitespace after_equal default_whitespace;
                    trimmed_setting = TrimWhitespace before_equal default_whitespace;
                    layer_and_name =
                      (case find_char CHR ''.'' trimmed_setting of
                         None \<Rightarrow> (''--None--'', trimmed_setting)
                       | Some period_loc \<Rightarrow>
                           (take period_loc trimmed_setting,
                            drop (period_loc + 1) trimmed_setting))
                in settings_add (fst layer_and_name)
                     \<lparr>name = snd layer_and_name, value = new_value\<rparr> settings))"

text \<open>
  The loop itself, over the text that is still unread.  \<^verbatim>\<open>getline\<close> takes the
  characters in front of the next line feed and removes the line feed; when it reaches the
  end of the text the stream is no longer \<^verbatim>\<open>good()\<close>, but the line it has just read is
  still processed.
\<close>

function read_settings :: "string \<Rightarrow> settings_map \<Rightarrow> settings_map" where
  "read_settings stream settings =
     (let cur_line = takeWhile (\<lambda>c. c \<noteq> CHR 0x0A) stream;
          unread = dropWhile (\<lambda>c. c \<noteq> CHR 0x0A) stream;
          settings' = settings_line cur_line settings
      in if unread = [] then settings' else read_settings (tl unread) settings')"
  by pat_completeness auto
termination
proof (relation "measure (\<lambda>(stream, settings). length stream)")
  show "wf (measure (\<lambda>(stream, settings). length stream))"
    by simp
next
  fix stream :: string and settings :: settings_map and x xa xb
  assume "xa = dropWhile (\<lambda>c. c \<noteq> CHR 0x0A) stream" and "xa \<noteq> []"
  then have "length (tl xa) < length xa" and "length xa \<le> length stream"
    by (simp_all add: length_dropWhile_le)
  then show "((tl xa, xb), stream, settings) \<in> measure (\<lambda>(stream, settings). length stream)"
    by simp
qed

declare read_settings.simps [simp del]

text \<open>The rows printed for the map once the file has been read.\<close>

definition settings_rows :: "settings_map \<Rightarrow> report_item list" where
  "settings_rows settings =
     concat (map (\<lambda>(layer, cur_vector).
        Row [el '''', er layer, el '''', el ''''] #
        map (\<lambda>p. Row [el '''', el '''', el (name p), el (value p)]) cur_vector) settings)"

text \<open>
  \<^verbatim>\<open>PrintSettingsJsonInfo\<close>.  The first argument is what opening the file gives:
  \<open>None\<close> when the stream fails, the text of the file otherwise.
\<close>

definition PrintSettingsJsonInfo :: "string option \<Rightarrow> string \<Rightarrow> report_item list" where
  "PrintSettingsJsonInfo settings_stream settings_file =
     (case settings_stream of
        None \<Rightarrow>
          [Row [el '''', el settings_file, el ''Failed to open settings file'', el '''']]
      | Some text \<Rightarrow>
          Row [el '''', el settings_file, el '''', el ''''] #
          settings_rows (read_settings text []))"

section \<open>The settings format in the words of the specification\<close>

text \<open>
  Section 4.7 of the specification, for comparison with the functions above.  A line is
  first stripped of the white space around it.  Blank lines and lines whose first
  character is then \<^verbatim>\<open>#\<close> are skipped, and so are lines without \<^verbatim>\<open>=\<close>.  The text in
  front of the first \<^verbatim>\<open>=\<close> is the key, trimmed, the text behind it the value, trimmed.
  The key is split at its first dot: the text in front of the dot is the name of the
  component, the text behind it the name of the setting; a key without a dot belongs to
  the component \<^verbatim>\<open>--None--\<close>.
\<close>

definition spec_trim :: "string \<Rightarrow> string" where
  "spec_trim s =
     rev (dropWhile (\<lambda>c. c \<in> set default_whitespace)
            (rev (dropWhile (\<lambda>c. c \<in> set default_whitespace) s)))"

definition spec_setting :: "string \<Rightarrow> (string \<times> SettingPair) option" where
  "spec_setting line =
     (let t = spec_trim line
      in if t = [] then None
         else if take 1 t = ''#'' then None
         else if CHR ''='' \<in> set t then
           let key = spec_trim (takeWhile (\<lambda>x. x \<noteq> CHR ''='') t);
               val = spec_trim (tl (dropWhile (\<lambda>x. x \<noteq> CHR ''='') t))
           in if CHR ''.'' \<in> set key
              then Some (takeWhile (\<lambda>x. x \<noteq> CHR ''.'') key,
                         \<lparr>name = tl (dropWhile (\<lambda>x. x \<noteq> CHR ''.'') key), value = val\<rparr>)
              else Some (''--None--'', \<lparr>name = key, value = val\<rparr>)
         else None)"

text \<open>The lines of a text: the pieces between its line feeds.\<close>

fun spec_lines :: "string \<Rightarrow> string list" where
  "spec_lines [] = [[]]"
| "spec_lines (c # cs) =
     (if c = CHR 0x0A then [] # spec_lines cs
      else (case spec_lines cs of
              l # ls \<Rightarrow> (c # l) # ls
            | [] \<Rightarrow> [[c]]))"

text \<open>
  The settings of one component, in the order of the file: the specification's mapping
  from a component name to the ordered sequence of its settings.
\<close>

definition spec_bucket :: "string list \<Rightarrow> string \<Rightarrow> SettingPair list" where
  "spec_bucket lines component =
     map snd (filter (\<lambda>entry. fst entry = component) (List.map_filter spec_setting lines))"

text \<open>The input of the example in section 8 of the specification.\<close>

definition settings_example :: string where
  "settings_example =
     ''# comment'' @ [CHR 0x0A, CHR 0x0A] @
     ''LayerA.setting1 = true'' @ [CHR 0x0A] @
     ''badline'' @ [CHR 0x0A] @
     ''LayerA.setting2=42'' @ [CHR 0x0A] @
     ''.globalOnly = x'' @ [CHR 0x0A]"

section \<open>Faults, JsonCpp values and the world outside the program\<close>

text \<open>Sequencing of steps that may fault: the first fault ends the run.\<close>

definition andthen :: "fault + 'a \<Rightarrow> ('a \<Rightarrow> fault + 'b) \<Rightarrow> fault + 'b" where
  "andthen step rest = (case step of Inl f \<Rightarrow> Inl f | Inr x \<Rightarrow> rest x)"

text \<open>
  \<^verbatim>\<open>Json::Value\<close> of the JsonCpp library, which is not part of the repository.  A number is
  kept as the text \<^verbatim>\<open>asString()\<close> returns for it, which is all the program asks of a
  number.  An object is the list of its members in the order in which JsonCpp iterates over
  them.
\<close>

datatype json =
    JNull
  | JBool bool
  | JNum string
  | JString string
  | JArray "json list"
  | JObject "(string \<times> json) list"

definition isNull :: "json \<Rightarrow> bool" where
  "isNull v = (v = JNull)"

fun isArray :: "json \<Rightarrow> bool" where
  "isArray (JArray xs) = True"
| "isArray v = False"

text \<open>
  \<^verbatim>\<open>v[key]\<close> on a value that is not \<^verbatim>\<open>const\<close>: the member, or null when there is none;
  only a null value or an object can be asked, every other value fails JsonCpp's
  assertion, which ends the program.
\<close>

fun member :: "json \<Rightarrow> string \<Rightarrow> fault + json" where
  "member JNull key = Inr JNull"
| "member (JObject ms) key = Inr (case map_of ms key of None \<Rightarrow> JNull | Some v \<Rightarrow> v)"
| "member v key = Inl JsonLogicError"

text \<open>\<^verbatim>\<open>v.asString()\<close>: arrays and objects are not convertible.\<close>

fun asString :: "json \<Rightarrow> fault + string" where
  "asString JNull = Inr []"
| "asString (JBool b) = Inr (if b then ''true'' else ''false'')"
| "asString (JNum s) = Inr s"
| "asString (JString s) = Inr s"
| "asString v = Inl JsonLogicError"

text \<open>The elements a \<^verbatim>\<open>Json::ValueIterator\<close> visits between \<^verbatim>\<open>begin()\<close> and \<^verbatim>\<open>end()\<close>.\<close>

fun elements :: "json \<Rightarrow> json list" where
  "elements (JArray xs) = xs"
| "elements (JObject ms) = map snd ms"
| "elements v = []"

text \<open>
  The values of \<^verbatim>\<open>key()\<close> along the same iteration: the member names of an object, the
  indices of an array, nothing for any other value.
\<close>

fun keys :: "json \<Rightarrow> json list" where
  "keys (JObject ms) = map (\<lambda>m. JString (fst m)) ms"
| "keys (JArray xs) = map (\<lambda>i. JNum (decimal i)) [0..<length xs]"
| "keys v = []"

text \<open>
  \<^verbatim>\<open>atoi\<close> as the GNU C library on a 64-bit Linux computes it, \<^verbatim>\<open>(int) strtol(nptr, NULL, 10)\<close>:
  white space, an optional sign and decimal digits; \<^verbatim>\<open>strtol\<close> stops at the bounds of
  \<^verbatim>\<open>long\<close>, and the conversion to \<^verbatim>\<open>int\<close> keeps the low 32 bits.
\<close>

definition isspace :: "char \<Rightarrow> bool" where
  "isspace c = (c \<in> set [CHR '' '', CHR 0x09, CHR 0x0A, CHR 0x0B, CHR 0x0C, CHR 0x0D])"

definition isdigit :: "char \<Rightarrow> bool" where
  "isdigit c = (48 \<le> (of_char c :: nat) \<and> (of_char c :: nat) \<le> 57)"

fun digits_value :: "int \<Rightarrow> string \<Rightarrow> int" where
  "digits_value acc [] = acc"
| "digits_value acc (c # cs) =
     (if isdigit c then digits_value (acc * 10 + (of_char c - 48)) cs else acc)"

definition strtol :: "string \<Rightarrow> int" where
  "strtol nptr =
     (let v = (case dropWhile isspace nptr of
                 [] \<Rightarrow> 0
               | c # cs \<Rightarrow>
                   if c = CHR ''-'' then - digits_value 0 cs
                   else if c = CHR ''+'' then digits_value 0 cs
                   else digits_value 0 (c # cs))
      in max (- (2 ^ 63)) (min (2 ^ 63 - 1) v))"

definition atoi :: "string \<Rightarrow> int" where
  "atoi nptr = (strtol nptr + 2 ^ 31) mod 2 ^ 32 - 2 ^ 31"

text \<open>Conversion of an \<^verbatim>\<open>int\<close> to \<^verbatim>\<open>uint16_t\<close> and to \<^verbatim>\<open>uint8_t\<close>.\<close>

definition uint16 :: "int \<Rightarrow> nat" where
  "uint16 i = nat (i mod 65536)"

definition uint8 :: "int \<Rightarrow> nat" where
  "uint8 i = nat (i mod 256)"

text \<open>
  What the program asks of the system it runs on.  \<open>opendir\<close> gives the names
  \<^verbatim>\<open>readdir\<close> returns for a folder, in that order, or \<open>None\<close> when the folder cannot be
  opened; \<open>json_ifstream\<close> says what opening a file and \<^verbatim>\<open>Json::Reader::parse\<close> make of
  it; \<open>text_ifstream\<close> is the text of a file, or \<open>None\<close> when the stream fails;
  \<open>access_R_OK\<close> is \<^verbatim>\<open>access(path, R_OK) != -1\<close>; \<open>dlopen_error\<close> is the text of
  \<^verbatim>\<open>dlerror()\<close> when \<^verbatim>\<open>dlopen\<close> fails and \<open>None\<close> when the library loads;
  \<open>popen_fgets\<close> is the first line a command prints; \<open>localtime_now\<close> is
  \<^verbatim>\<open>*localtime(&t)\<close> for \<^verbatim>\<open>t = time(NULL)\<close>.
\<close>

datatype json_stream = StreamFails | ParseFails string | Parsed json

datatype pipe = PopenFails | NoLine | FirstLine string

record tm =
  tm_year :: int
  tm_mon :: int
  tm_mday :: int
  tm_hour :: int
  tm_min :: int

record world =
  opendir :: "string \<Rightarrow> string list option"
  json_ifstream :: "string \<Rightarrow> json_stream"
  text_ifstream :: "string \<Rightarrow> string option"
  access_R_OK :: "string \<Rightarrow> bool"
  dlopen_error :: "string \<Rightarrow> string option"
  popen_fgets :: "string \<Rightarrow> pipe"
  localtime_now :: tm

text \<open>
  The environment is part of the state of the process: \<^verbatim>\<open>getenv\<close> returns a pointer into
  it and \<^verbatim>\<open>strtok\<close> writes through that pointer.
\<close>

type_synonym environment = "string \<Rightarrow> string option"

section \<open>\<^verbatim>\<open>PrintExplicitLayerJsonInfo\<close>\<close>

text \<open>
  The recurring pattern \<^verbatim>\<open>if (!v.isNull()) PrintTableElement(v.asString()); else
  PrintTableElement("MISSING!");\<close>.
\<close>

definition text_or_missing :: "json \<Rightarrow> fault + string" where
  "text_or_missing v = (if \<not> isNull v then asString v else Inr ''MISSING!'')"

text \<open>
  The loops over \<^verbatim>\<open>device_extensions\<close> and \<^verbatim>\<open>instance_extensions\<close>.  The counter printed
  in front of each name is never incremented in the source, so every row shows \<^verbatim>\<open>[0]\<close>.
  \<open>indent\<close> is the list of empty cells in front (two for a layer, one for a driver).
\<close>

fun extension_rows :: "element list \<Rightarrow> json list \<Rightarrow> fault + report_item list" where
  "extension_rows indent [] = Inr []"
| "extension_rows indent (ext # exts) =
     andthen (member ext ''name'') (\<lambda>ext_name.
       if \<not> isNull ext_name
       then andthen (asString ext_name) (\<lambda>s.
              andthen (extension_rows indent exts) (\<lambda>rows.
                Inr (Row (indent @ [er (snprintf (''['' @ decimal 0 @ '']'')), el s]) # rows)))
       else extension_rows indent exts)"

definition extensions_table ::
  "element list \<Rightarrow> string \<Rightarrow> json \<Rightarrow> fault + report_item list" where
  "extensions_table indent title exts =
     (if \<not> isNull exts \<and> isArray exts
      then andthen (extension_rows indent (elements exts)) (\<lambda>rows.
             Inr (Row (indent @ [el title, el (snprintf (decimal (length (elements exts))))])
                  # rows))
      else Inr [])"

fun component_layer_rows :: "json list \<Rightarrow> fault + report_item list" where
  "component_layer_rows [] = Inr []"
| "component_layer_rows (comp_layer # rest) =
     andthen (asString comp_layer) (\<lambda>s.
       andthen (component_layer_rows rest) (\<lambda>rows.
         Inr (Row [el '''', el '''', el '''', er s] # rows)))"

text \<open>
  The function, in the Linux build (the query of the file version of the library is
  compiled for Windows only, so \<open>layer_json_filename\<close> is not used).
\<close>

definition PrintExplicitLayerJsonInfo :: "string \<Rightarrow> json \<Rightarrow> fault + report_item list" where
  "PrintExplicitLayerJsonInfo layer_json_filename root =
     andthen (member root ''layer'') (\<lambda>layer.
       if \<not> isNull layer then
         andthen (member layer ''name'') (\<lambda>v1. andthen (text_or_missing v1) (\<lambda>name_text.
         andthen (member layer ''description'') (\<lambda>v2. andthen (text_or_missing v2) (\<lambda>description_text.
         andthen (member layer ''api_version'') (\<lambda>v3. andthen (text_or_missing v3) (\<lambda>api_text.
         andthen (member root ''file_format_version'') (\<lambda>v4. andthen (text_or_missing v4) (\<lambda>file_text.
         andthen (member layer ''component_layers'') (\<lambda>component_layers.
         andthen (member layer ''library_path'') (\<lambda>library_path.
         andthen (if \<not> isNull component_layers \<and> \<not> isNull library_path then
                Inr [Row [el '''', el '''', el ''Library Path / Component Layers'',
                          el ''BOTH DEFINED!'']]
              else if \<not> isNull library_path then
                andthen (asString library_path) (\<lambda>library_text.
                andthen (member layer ''device_extensions'') (\<lambda>dev_exts.
                andthen (extensions_table [el '''', el ''''] ''Device Extensions'' dev_exts)
                  (\<lambda>dev_rows.
                andthen (member layer ''instance_extensions'') (\<lambda>inst_exts.
                andthen (extensions_table [el '''', el ''''] ''Instance Extensions'' inst_exts)
                  (\<lambda>inst_rows.
                  Inr (Row [el '''', el '''', el ''Library Path'', el library_text]
                       # dev_rows @ inst_rows))))))
              else if \<not> isNull component_layers then
                (if isArray component_layers then
                   andthen (component_layer_rows (elements component_layers)) (\<lambda>rows.
                     Inr (Row [el '''', el '''', el ''Component Layers'',
                               el (snprintf (decimal (length (elements component_layers))))]
                          # rows))
                 else
                   Inr [Row [el '''', el '''', el ''Component Layers'', el ''NOT AN ARRAY!'']])
              else
                Inr [Row [el '''', el '''', el ''Library Path / Component Layers'',
                          el ''MISSING!'']])
           (\<lambda>library_rows.
             Inr ([Row [el '''', el '''', el ''Name'', el name_text],
                   Row [el '''', el '''', el ''Description'', el description_text],
                   Row [el '''', el '''', el ''API Version'', el api_text],
                   Row [el '''', el '''', el ''JSON File Version'', el file_text]]
                  @ library_rows))))))))))))
       else
         Inr [Row [el '''', el ''Layer Section'', el ''MISSING!'', el '''']])"

section \<open>\<^verbatim>\<open>checkExpiration\<close> and \<^verbatim>\<open>PrintImplicitLayerJsonInfo\<close>\<close>

record override_expiration =
  year :: nat
  month :: nat
  day :: nat
  hour :: nat
  minute :: nat

text \<open>
  \<^verbatim>\<open>checkExpiration\<close>, with the current local time as an argument.  The five local
  variables of the source are named \<open>cur_year\<close> to \<open>cur_minute\<close> here, because
  \<open>year\<close> to \<open>minute\<close> are the fields of the record.  The result is the variable
  \<^verbatim>\<open>still_valid\<close>.
\<close>

definition checkExpiration :: "tm \<Rightarrow> override_expiration \<Rightarrow> bool" where
  "checkExpiration now expiration =
     (let cur_year = uint16 (tm_year now + 1900);
          cur_month = uint8 (tm_mon now + 1);
          cur_day = uint8 (tm_mday now);
          cur_hour = uint8 (tm_hour now);
          cur_minute = uint8 (tm_min now)
      in year expiration > cur_year \<or> month expiration > cur_month
         \<or> day expiration > cur_day \<or> hour expiration > cur_hour
         \<or> minute expiration > cur_minute)"

text \<open>The local variables of \<^verbatim>\<open>PrintImplicitLayerJsonInfo\<close> that the last rows print.\<close>

record implicit_locals =
  enabled :: bool
  expired :: bool
  enable_env_variable :: string
  enable_var_set :: bool
  disable_env_variable :: string
  disable_var_set :: bool
  disable_env_value :: string

definition initial_locals :: implicit_locals where
  "initial_locals =
     \<lparr>enabled = True, expired = False,
      enable_env_variable = ''--NONE--'', enable_var_set = False,
      disable_env_variable = ''--NONE--'', disable_var_set = False,
      disable_env_value = []\<rparr>"

text \<open>
  The block on \<^verbatim>\<open>override_paths\<close>: every element of the array is appended to the
  caller's vector, and one row shows their number and the paths joined by colons.
\<close>

fun override_path_texts :: "json list \<Rightarrow> fault + string list" where
  "override_path_texts [] = Inr []"
| "override_path_texts (override_path # rest) =
     andthen (asString override_path) (\<lambda>s.
       andthen (override_path_texts rest) (\<lambda>texts. Inr (s # texts)))"

fun combine_paths :: "string list \<Rightarrow> string" where
  "combine_paths [] = []"
| "combine_paths [p] = p"
| "combine_paths (p # q # rest) = p @ '':'' @ combine_paths (q # rest)"

definition record_override_paths ::
  "json \<Rightarrow> string list \<Rightarrow> fault + report_item list \<times> string list" where
  "record_override_paths override_paths_json override_paths =
     (if \<not> isNull override_paths_json \<and> isArray override_paths_json
      then andthen (override_path_texts (elements override_paths_json)) (\<lambda>texts.
             Inr ([Row [el '''', el ''Override Paths'', el (decimal (length texts)),
                        el (combine_paths texts)]],
                  override_paths @ texts))
      else Inr ([], override_paths))"

text \<open>
  The loop over \<^verbatim>\<open>enable_environment\<close>.  It skips keys that are null and ends with
  \<^verbatim>\<open>break\<close> after the first other key.  \<^verbatim>\<open>strncpy(enable_env_value, enable_env, 15)\<close>
  keeps the first 15 characters of the value of the variable.
\<close>

fun enable_loop :: "environment \<Rightarrow> json list \<Rightarrow> implicit_locals \<Rightarrow> fault + implicit_locals" where
  "enable_loop env [] l = Inr l"
| "enable_loop env (key # rest) l =
     (if isNull key then enable_loop env rest l
      else
        andthen (asString key) (\<lambda>variable.
          let l = l\<lparr>enable_env_variable := variable, enabled := False\<rparr>
          in Inr (case env (c_str variable) of
                    None \<Rightarrow> l
                  | Some enable_env \<Rightarrow>
                      let enable_env_value = take 15 enable_env
                      in if atoi enable_env_value \<noteq> 0
                         then l\<lparr>enable_var_set := True, enabled := True\<rparr>
                         else l)))"

text \<open>The loop over \<^verbatim>\<open>disable_environment\<close>, of the same shape.\<close>

fun disable_loop :: "environment \<Rightarrow> json list \<Rightarrow> implicit_locals \<Rightarrow> fault + implicit_locals" where
  "disable_loop env [] l = Inr l"
| "disable_loop env (key # rest) l =
     (if isNull key then disable_loop env rest l
      else
        andthen (asString key) (\<lambda>variable.
          let l = l\<lparr>disable_env_variable := variable\<rparr>
          in Inr (case env (c_str variable) of
                    None \<Rightarrow> l
                  | Some disable_env \<Rightarrow>
                      let l = l\<lparr>disable_env_value := take 15 disable_env\<rparr>
                      in if atoi (disable_env_value l) > 0
                         then l\<lparr>disable_var_set := True, enabled := False\<rparr>
                         else l)))"

text \<open>
  The two blocks together, from \<^verbatim>\<open>Json::Value enable = ...\<close> to the end of the block
  on \<^verbatim>\<open>disable\<close>; the argument is \<^verbatim>\<open>root["layer"]\<close>.
\<close>

definition evaluate_toggles :: "environment \<Rightarrow> json \<Rightarrow> fault + implicit_locals" where
  "evaluate_toggles env layer =
     andthen (member layer ''enable_environment'') (\<lambda>enable.
     andthen (if \<not> isNull enable then enable_loop env (keys enable) initial_locals
              else Inr initial_locals) (\<lambda>l.
     andthen (member layer ''disable_environment'') (\<lambda>disable.
       if \<not> isNull disable then disable_loop env (keys disable) l else Inr l)))"

text \<open>
  The \<^verbatim>\<open>while (cur_item < 5 && strlen(cur_start))\<close> loop that reads the fields of the
  date.  \<open>cur_start\<close> is the text at the pointer of that name; \<^verbatim>\<open>next_dash\<close> is
  always \<^verbatim>\<open>strchr(cur_start, '-')\<close> when the loop body starts.  When there is no further
  dash the pointer does not move, and the same text is read for the next field too.
\<close>

function expiration_fields ::
  "nat \<Rightarrow> string \<Rightarrow> override_expiration \<Rightarrow> override_expiration" where
  "expiration_fields cur_item cur_start expiration =
     (if cur_item < 5 \<and> cur_start \<noteq> [] then
        let next_dash = find_char CHR ''-'' cur_start;
            field = (case next_dash of None \<Rightarrow> cur_start | Some n \<Rightarrow> take n cur_start);
            expiration =
              (if cur_item = 0 then expiration\<lparr>year := uint16 (atoi field)\<rparr>
               else if cur_item = 1 then expiration\<lparr>month := uint8 (atoi field)\<rparr>
               else if cur_item = 2 then expiration\<lparr>day := uint8 (atoi field)\<rparr>
               else if cur_item = 3 then expiration\<lparr>hour := uint8 (atoi field)\<rparr>
               else if cur_item = 4 then expiration\<lparr>minute := uint8 (atoi field)\<rparr>
               else expiration);
            cur_start =
              (case next_dash of None \<Rightarrow> cur_start | Some n \<Rightarrow> drop (n + 1) cur_start)
        in expiration_fields (cur_item + 1) cur_start expiration
      else expiration)"
  by pat_completeness auto
termination
  by (relation "measure (\<lambda>(cur_item, cur_start, expiration). 5 - cur_item)") auto

declare expiration_fields.simps [simp del]

text \<open>
  The block on \<^verbatim>\<open>expiration\<close>.  \<^verbatim>\<open>strncpy(date_copy, ..., 32)\<close> leaves the 32 bytes of
  \<^verbatim>\<open>date_copy\<close> without a terminator when the text has 32 or more characters;
  \<^verbatim>\<open>strlen\<close> then counts those 32 bytes and goes on behind the array, so whatever it
  returns is not 16 and the test fails, as it does for every other text whose length is
  not 16.  Note the assignments under \<^verbatim>\<open>if (enabled)\<close>: \<^verbatim>\<open>expired\<close> receives the
  result of \<^verbatim>\<open>checkExpiration\<close>, and \<^verbatim>\<open>enabled\<close> receives \<^verbatim>\<open>expired\<close>.
\<close>

definition expiration_step ::
  "tm \<Rightarrow> json \<Rightarrow> implicit_locals \<Rightarrow> fault + report_item list \<times> implicit_locals" where
  "expiration_step now expiration_json l =
     (if \<not> isNull expiration_json then
        andthen (asString expiration_json) (\<lambda>s.
          let date_copy = c_str s
          in if length date_copy = 16 then
               let zero = \<lparr>year = 0, month = 0, day = 0, hour = 0, minute = 0\<rparr>;
                   expiration =
                     (if CHR ''-'' \<in> set date_copy then expiration_fields 0 date_copy zero
                      else zero);
                   l = (if enabled l
                        then (let e = checkExpiration now expiration
                              in l\<lparr>expired := e, enabled := e\<rparr>)
                        else l);
                   expiration_string =
                     decimal (year expiration) @ ''/'' @ decimal (month expiration) @ ''/'' @
                     decimal (day expiration) @ '' '' @ decimal (hour expiration) @ '':'' @
                     decimal (minute expiration)
               in Inr ([Row [el '''', el ''Expiration'', el expiration_string, el '''']], l)
             else Inr ([], l))
      else Inr ([], l))"

text \<open>The three rows at the end of the function.\<close>

definition state_rows :: "implicit_locals \<Rightarrow> report_item list" where
  "state_rows l =
     [Row [el '''', el '''', el ''Enabled State'',
           el (if expired l then ''EXPIRED''
               else if enabled l then ''ENABLED'' else ''DISABLED'')],
      Row [el '''', er ''Enable Env Var'', el (enable_env_variable l),
           el (if enable_var_set l then '''' else ''Not Defined'')],
      Row [el '''', er ''Disable Env Var'', el (disable_env_variable l),
           el (if disable_var_set l then disable_env_value l else ''Not Defined'')]]"

text \<open>
  The function.  It returns what it wrote and the vector \<open>override_paths\<close>, which it
  receives by reference.
\<close>

definition PrintImplicitLayerJsonInfo ::
  "tm \<Rightarrow> environment \<Rightarrow> string \<Rightarrow> json \<Rightarrow> string list
     \<Rightarrow> fault + report_item list \<times> string list" where
  "PrintImplicitLayerJsonInfo now env layer_json_filename root override_paths =
     andthen (PrintExplicitLayerJsonInfo layer_json_filename root) (\<lambda>explicit_rows.
     andthen (member root ''layer'') (\<lambda>layer.
     andthen (member layer ''override_paths'') (\<lambda>override_paths_json.
     andthen (record_override_paths override_paths_json override_paths) (\<lambda>recorded.
     andthen (evaluate_toggles env layer) (\<lambda>l.
     andthen (member layer ''expiration'') (\<lambda>expiration_json.
     andthen (expiration_step now expiration_json l) (\<lambda>checked.
       Inr (explicit_rows @ fst recorded @ fst checked @ state_rows (snd checked),
            snd recorded))))))))"

section \<open>The enablement rules in the words of the specification\<close>

text \<open>
  Section 4.5 of the specification, rules 1 to 3, for comparison with
  \<open>evaluate_toggles\<close>.  A toggle is declared when the member of the manifest has a first
  key, and that key is the name of the environment variable.  The value of a variable is
  read leniently as an integer, an absent variable counting as zero.  The result is
  \<open>True\<close> for \<^verbatim>\<open>Enabled\<close> and \<open>False\<close> for \<^verbatim>\<open>Disabled\<close>.
\<close>

definition spec_toggle_variable :: "json \<Rightarrow> string option" where
  "spec_toggle_variable toggle =
     (case keys toggle of
        [] \<Rightarrow> None
      | key # others \<Rightarrow> (case asString key of Inl f \<Rightarrow> None | Inr variable \<Rightarrow> Some variable))"

definition spec_env_int :: "environment \<Rightarrow> string \<Rightarrow> int" where
  "spec_env_int env variable =
     (case env (c_str variable) of None \<Rightarrow> 0 | Some text \<Rightarrow> atoi (take 15 text))"


section \<open>Example manifests and environments\<close>

text \<open>The local time 2020-06-15 12:30.\<close>

definition june_2020 :: tm where
  "june_2020 = \<lparr>tm_year = 120, tm_mon = 5, tm_mday = 15, tm_hour = 12, tm_min = 30\<rparr>"

definition no_environment :: environment where
  "no_environment = (\<lambda>variable. None)"

text \<open>An implicit layer without toggles and with the given expiration text.\<close>

definition expiring_manifest :: "string \<Rightarrow> json" where
  "expiring_manifest date =
     JObject [(''file_format_version'', JString ''1.0.0''),
              (''layer'', JObject [(''api_version'', JString ''1.0.0''),
                                   (''description'', JString ''a layer''),
                                   (''expiration'', JString date),
                                   (''library_path'', JString ''./libVkLayer_a.so''),
                                   (''name'', JString ''VK_LAYER_a'')])]"

text \<open>The rows \<^verbatim>\<open>PrintExplicitLayerJsonInfo\<close> prints for that manifest.\<close>

definition expiring_manifest_rows :: "report_item list" where
  "expiring_manifest_rows =
     [Row [el '''', el '''', el ''Name'', el ''VK_LAYER_a''],
      Row [el '''', el '''', el ''Description'', el ''a layer''],
      Row [el '''', el '''', el ''API Version'', el ''1.0.0''],
      Row [el '''', el '''', el ''JSON File Version'', el ''1.0.0''],
      Row [el '''', el '''', el ''Library Path'', el ''./libVkLayer_a.so'']]"

text \<open>
  An implicit layer with both toggles and an expiration in the past, and an environment
  that sets both variables to 1.
\<close>

definition toggled_layer :: json where
  "toggled_layer =
     JObject [(''api_version'', JString ''1.0.0''),
              (''description'', JString ''a layer''),
              (''disable_environment'', JObject [(''DISABLE_A'', JString ''1'')]),
              (''enable_environment'', JObject [(''ENABLE_A'', JString ''1'')]),
              (''expiration'', JString ''2000-01-01-00-00''),
              (''library_path'', JString ''./libVkLayer_a.so''),
              (''name'', JString ''VK_LAYER_a'')]"

definition toggled_manifest :: json where
  "toggled_manifest =
     JObject [(''file_format_version'', JString ''1.0.0''), (''layer'', toggled_layer)]"

definition both_set :: environment where
  "both_set =
     (\<lambda>variable. if variable = ''ENABLE_A'' \<or> variable = ''DISABLE_A'' then Some ''1''
                  else None)"

text \<open>The three last rows for a layer without toggles, with the given state.\<close>

definition untoggled_state_rows :: "string \<Rightarrow> report_item list" where
  "untoggled_state_rows state =
     [Row [el '''', el '''', el ''Enabled State'', el state],
      Row [el '''', er ''Enable Env Var'', el ''--NONE--'', el ''Not Defined''],
      Row [el '''', er ''Disable Env Var'', el ''--NONE--'', el ''Not Defined'']]"

section \<open>The state of the process: the environment and \<^verbatim>\<open>strtok\<close>\<close>

datatype ErrorResults =
    SUCCESSFUL
  | UNKNOWN_ERROR
  | SYSTEM_CALL_FAILURE
  | MISSING_DRIVER_REGISTRY
  | MISSING_DRIVER_JSON
  | DRIVER_JSON_PARSING_ERROR
  | MISSING_DRIVER_LIB
  | MISSING_LAYER_JSON
  | LAYER_JSON_PARSING_ERROR
  | MISSING_LAYER_LIB
  | VULKAN_CANT_FIND_RUNTIME
  | VULKAN_CANT_FIND_DRIVER
  | VULKAN_CANT_FIND_EXTENSIONS
  | VULKAN_FAILED_CREATE_INSTANCE
  | VULKAN_FAILED_CREATE_DEVICE
  | VULKAN_FAILED_OUT_OF_MEM
  | TEST_FAILED

text \<open>The values of the enumeration, which \<^verbatim>\<open>main\<close> returns as the exit status.\<close>

fun error_code :: "ErrorResults \<Rightarrow> int" where
  "error_code SUCCESSFUL = 0"
| "error_code UNKNOWN_ERROR = - 1"
| "error_code SYSTEM_CALL_FAILURE = - 2"
| "error_code MISSING_DRIVER_REGISTRY = - 20"
| "error_code MISSING_DRIVER_JSON = - 21"
| "error_code DRIVER_JSON_PARSING_ERROR = - 22"
| "error_code MISSING_DRIVER_LIB = - 23"
| "error_code MISSING_LAYER_JSON = - 24"
| "error_code LAYER_JSON_PARSING_ERROR = - 25"
| "error_code MISSING_LAYER_LIB = - 26"
| "error_code VULKAN_CANT_FIND_RUNTIME = - 40"
| "error_code VULKAN_CANT_FIND_DRIVER = - 41"
| "error_code VULKAN_CANT_FIND_EXTENSIONS = - 42"
| "error_code VULKAN_FAILED_CREATE_INSTANCE = - 43"
| "error_code VULKAN_FAILED_CREATE_DEVICE = - 44"
| "error_code VULKAN_FAILED_OUT_OF_MEM = - 45"
| "error_code TEST_FAILED = - 60"

text \<open>
  \<open>environ\<close> is what \<^verbatim>\<open>getenv\<close> returns; \<open>olds\<close> is the text at the pointer that
  \<^verbatim>\<open>strtok\<close> keeps from one call to the next.
\<close>

record process =
  environ :: environment
  olds :: string

text \<open>
  One call of \<^verbatim>\<open>strtok(..., ":")\<close> scanning the given text: it skips colons, returns
  \<^verbatim>\<open>NULL\<close> at the end of the text, and otherwise returns the characters up to the next
  colon; the second component is the text at which the next call with \<^verbatim>\<open>NULL\<close> starts.
\<close>

definition strtok_from :: "string \<Rightarrow> string option \<times> string" where
  "strtok_from text =
     (let s = dropWhile (\<lambda>c. c = CHR '':'') text
      in if s = [] then (None, [])
         else (Some (takeWhile (\<lambda>c. c \<noteq> CHR '':'') s),
               tl (dropWhile (\<lambda>c. c \<noteq> CHR '':'') s)))"

text \<open>All tokens of a text: the loop \<^verbatim>\<open>while (tok != NULL) { ...; tok = strtok(NULL, ":"); }\<close>
  when its body does not call \<^verbatim>\<open>strtok\<close> itself.\<close>

function all_tokens :: "string \<Rightarrow> string list" where
  "all_tokens text =
     (case strtok_from text of
        (None, rest) \<Rightarrow> []
      | (Some tok, rest) \<Rightarrow> tok # all_tokens rest)"
  by pat_completeness auto
termination
proof (relation "measure length")
  show "wf (measure length)" by simp
next
  fix buf :: string and x rest tok
  assume a: "(x, rest) = strtok_from buf" and "x = Some tok"
  let ?s = "dropWhile (\<lambda>c. c = CHR '':'') buf"
  from a \<open>x = Some tok\<close> have ne: "?s \<noteq> []" and r: "rest = tl (dropWhile (\<lambda>c. c \<noteq> CHR '':'') ?s)"
    by (auto simp: strtok_from_def Let_def split: if_splits)
  have "length rest \<le> length (dropWhile (\<lambda>c. c \<noteq> CHR '':'') ?s)"
    by (simp add: r)
  also have "\<dots> \<le> length ?s"
    by (rule length_dropWhile_le)
  finally have 1: "length rest \<le> length ?s" .
  have 2: "length ?s \<le> length buf"
    by (rule length_dropWhile_le)
  have "length rest < length buf"
  proof (cases "dropWhile (\<lambda>c. c \<noteq> CHR '':'') ?s = []")
    case True
    with r have "rest = []" by simp
    moreover from ne 2 have "buf \<noteq> []" by auto
    ultimately show ?thesis by simp
  next
    case False
    then have "length rest < length (dropWhile (\<lambda>c. c \<noteq> CHR '':'') ?s)"
      by (simp add: r)
    also have "\<dots> \<le> length ?s"
      by (rule length_dropWhile_le)
    finally show ?thesis using 2 by simp
  qed
  then show "(rest, buf) \<in> measure length" by simp
qed

declare all_tokens.simps [simp del]

text \<open>
  What the first call of \<^verbatim>\<open>strtok\<close> on a text leaves in the buffer, read from its start:
  the call writes a terminator over the colon behind the first token.  Later calls write
  further to the right.
\<close>

definition after_strtok :: "string \<Rightarrow> string" where
  "after_strtok text =
     takeWhile (\<lambda>c. c = CHR '':'') text @
     takeWhile (\<lambda>c. c \<noteq> CHR '':'') (dropWhile (\<lambda>c. c = CHR '':'') text)"

text \<open>
  The state after a loop that has taken all tokens of the value of a variable: the value
  is cut behind its first token, and the pointer of \<^verbatim>\<open>strtok\<close> is at the end of a text.
\<close>

definition tokenised :: "string \<Rightarrow> process \<Rightarrow> process" where
  "tokenised variable st =
     (case environ st variable of
        None \<Rightarrow> st
      | Some text \<Rightarrow> st\<lparr>environ := (environ st)(variable \<mapsto> after_strtok text), olds := []\<rparr>)"

section \<open>\<^verbatim>\<open>CheckDriver\<close>, \<^verbatim>\<open>FindLinuxSystemObject\<close> and \<^verbatim>\<open>VerifyOpen\<close>\<close>

definition CheckDriver :: "world \<Rightarrow> string \<Rightarrow> string \<Rightarrow> bool" where
  "CheckDriver w folder_loc object_name =
     (let full_name = (if folder_loc \<noteq> [] \<and> last folder_loc \<noteq> CHR ''/''
                       then folder_loc @ ''/'' else folder_loc) @ object_name
      in access_R_OK w full_name)"

text \<open>
  The five folders of the \<^verbatim>\<open>switch\<close>, for a build with \<^verbatim>\<open>__x86_64__\<close> defined.
\<close>

definition system_folders :: "string list" where
  "system_folders =
     [''/usr/lib'', ''/usr/lib/x86_64-linux-gnu'', ''/usr/lib64'', ''/usr/local/lib'',
      ''/usr/local/lib64'']"

text \<open>
  The \<^verbatim>\<open>for\<close> loop over these folders; the result is \<open>(found_one, location, stopped)\<close>,
  \<open>stopped\<close> saying that the loop left through \<^verbatim>\<open>goto out\<close>.
\<close>

fun system_folder_loop ::
  "(string \<Rightarrow> string \<Rightarrow> bool) \<Rightarrow> bool \<Rightarrow> string \<Rightarrow> string list \<Rightarrow> bool \<times> string
     \<Rightarrow> bool \<times> string \<times> bool" where
  "system_folder_loop func break_on_first object_name [] (found_one, location) =
     (found_one, location, False)"
| "system_folder_loop func break_on_first object_name (path_to_check # rest)
     (found_one, location) =
     (if func path_to_check object_name
      then (if break_on_first then (True, path_to_check @ ''/'' @ object_name, True)
            else system_folder_loop func break_on_first object_name rest
                   (True, path_to_check @ ''/'' @ object_name))
      else system_folder_loop func break_on_first object_name rest (found_one, location))"

text \<open>The loop over the folders of \<^verbatim>\<open>LD_LIBRARY_PATH\<close>; a token is never empty.\<close>

fun library_path_loop ::
  "(string \<Rightarrow> string \<Rightarrow> bool) \<Rightarrow> string \<Rightarrow> string list \<Rightarrow> bool \<times> string \<Rightarrow> bool \<times> string" where
  "library_path_loop func object_name [] (found_one, location) = (found_one, location)"
| "library_path_loop func object_name (tok # rest) (found_one, location) =
     (if length tok > 0 \<and> func tok object_name
      then library_path_loop func object_name rest (True, tok @ ''/'' @ object_name)
      else library_path_loop func object_name rest (found_one, location))"

text \<open>
  \<^verbatim>\<open>FindLinuxSystemObject\<close>.  It returns \<open>found_one\<close>, the text in \<open>location\<close> and the
  state of the process, which changes when the loop over \<^verbatim>\<open>LD_LIBRARY_PATH\<close> runs.
\<close>

definition FindLinuxSystemObject ::
  "process \<Rightarrow> string \<Rightarrow> (string \<Rightarrow> string \<Rightarrow> bool) \<Rightarrow> bool \<Rightarrow> bool \<times> string \<times> process" where
  "FindLinuxSystemObject st object_name func break_on_first =
     (case system_folder_loop func break_on_first object_name system_folders (False, []) of
        (found_one, location, stopped) \<Rightarrow>
          if stopped then (found_one, location, st)
          else
            (case environ st ''LD_LIBRARY_PATH'' of
               None \<Rightarrow> (found_one, location, st)
             | Some env_value \<Rightarrow>
                 (case library_path_loop func object_name (all_tokens env_value)
                         (found_one, location) of
                    (found_one, location) \<Rightarrow>
                      (found_one, location, tokenised ''LD_LIBRARY_PATH'' st))))"

text \<open>\<^verbatim>\<open>VerifyOpen\<close>: \<open>success\<close> and the text left in \<open>error\<close>.\<close>

definition VerifyOpen :: "world \<Rightarrow> string \<Rightarrow> string \<Rightarrow> bool \<times> string" where
  "VerifyOpen w library_file error =
     (case dlopen_error w library_file of
        Some message \<Rightarrow> (False, message)
      | None \<Rightarrow> (True, error))"

section \<open>\<^verbatim>\<open>ReadDriverJson\<close>\<close>

text \<open>
  \<^verbatim>\<open>sprintf\<close> into \<^verbatim>\<open>generic_string\<close>, an array of \<^verbatim>\<open>MAX_STRING_LENGTH\<close> bytes: a text
  that does not fit together with its terminator is written past the end of the array.
\<close>

definition sprintf :: "string \<Rightarrow> fault + string" where
  "sprintf formatted =
     (if MAX_STRING_LENGTH \<le> length formatted then Inl MemoryFault else Inr formatted)"

text \<open>The command line that the function formats for \<^verbatim>\<open>popen\<close>.\<close>

definition ldconfig_command :: "string \<Rightarrow> string" where
  "ldconfig_command driver_name =
     ''/sbin/ldconfig -v -N -p | grep '' @ c_str driver_name @
     '' | awk '' @ [CHR 0x27] @ ''{ print $4 }'' @ [CHR 0x27]"

text \<open>
  The part of the function under \<^verbatim>\<open>if (!root["ICD"]["library_path"].isNull())\<close>, behind
  the row that shows the name: the search for the library.  The arguments are the path of
  the manifest, \<open>driver_name\<close> and the value of the reference parameter; the result is
  the new value of that parameter, the rows printed and the state of the process.
  The local \<^verbatim>\<open>could_load\<close> starts as \<^verbatim>\<open>true\<close> and \<^verbatim>\<open>load_error\<close> as the empty text.
  \<^verbatim>\<open>fgets(query_res, sizeof(query_res) - 1, fp)\<close> keeps at most 1022 characters of the
  line.  The result of the last \<^verbatim>\<open>VerifyOpen(query_res, load_error)\<close> is not used by the
  source.
\<close>

definition locate_library ::
  "world \<Rightarrow> process \<Rightarrow> string \<Rightarrow> string \<Rightarrow> bool
     \<Rightarrow> fault + bool \<times> report_item list \<times> process" where
  "locate_library w st cur_driver_json driver_name found =
     andthen (GenerateLibraryPath (Some (c_str cur_driver_json)) (Some (c_str driver_name))
                MAX_STRING_LENGTH) (\<lambda>generated.
       let first =
             (case generated of
                None \<Rightarrow> (found, (True, []), st)
              | Some full_driver_path \<Rightarrow>
                  if access_R_OK w full_driver_path
                  then (True, VerifyOpen w full_driver_path [], st)
                  else if find_char CHR ''/'' driver_name = None
                  then (case FindLinuxSystemObject st driver_name (CheckDriver w) True of
                          (found_one, location, st') \<Rightarrow>
                            if found_one then (True, VerifyOpen w location [], st')
                            else (found, (True, []), st'))
                  else (found, (True, []), st));
           found = fst first;
           could_load = fst (fst (snd first));
           load_error = snd (fst (snd first));
           st = snd (snd first)
       in if \<not> found then
            andthen (sprintf (ldconfig_command driver_name))
              (\<lambda>generic_string.
                 case popen_fgets w generic_string of
                   PopenFails \<Rightarrow>
                     Inr (found,
                          [Row [el '''', el '''',
                                el (snprintf (''Failed to find driver '' @ c_str driver_name @
                                      '' referenced by JSON '' @ c_str cur_driver_json))]],
                          st)
                 | NoLine \<Rightarrow> Inr (found, [], st)
                 | FirstLine line \<Rightarrow>
                     andthen (sprintf (''Found at '' @ take 1022 line)) (\<lambda>generic_string.
                       Inr (True, [Row [el '''', el '''', el generic_string]], st)))
          else if \<not> could_load then
            Inr (found, [Row [el '''', el ''FAILED TO LOAD!'', el load_error]], st)
          else Inr (found, [], st))"

text \<open>
  The function.  The result is \<open>(found_json, found_lib, rows, state)\<close>: the value
  returned, the value of the reference parameter \<open>found_lib\<close> at the end, the rows
  printed and the state of the process.
\<close>

definition ReadDriverJson ::
  "world \<Rightarrow> process \<Rightarrow> string \<Rightarrow> bool
     \<Rightarrow> fault + bool \<times> bool \<times> report_item list \<times> process" where
  "ReadDriverJson w st cur_driver_json found =
     (case json_ifstream w (c_str cur_driver_json) of
        StreamFails \<Rightarrow>
          Inr (False, found,
               [Row [el '''', el ''Error reading JSON file'', el cur_driver_json]], st)
      | ParseFails messages \<Rightarrow>
          Inr (False, found,
               [Row [el '''', el ''Error reading JSON file'', el messages]], st)
      | Parsed root \<Rightarrow>
          if isNull root then
            Inr (False, found, [Row [el '''', el ''Error reading JSON file'', el '''']], st)
          else
            andthen (member root ''file_format_version'') (\<lambda>v1.
            andthen (text_or_missing v1) (\<lambda>version_text.
            andthen (member root ''ICD'') (\<lambda>icd.
              if isNull icd then
                Inr (False, found,
                     [Row [el '''', el ''JSON File Version'', el version_text],
                      Row [el '''', el ''ICD Section'', el ''MISSING!'']], st)
              else
                andthen (member icd ''api_version'') (\<lambda>v2.
                andthen (text_or_missing v2) (\<lambda>api_text.
                andthen (member icd ''library_path'') (\<lambda>library_path.
                andthen (if \<not> isNull library_path then
                           andthen (asString library_path) (\<lambda>driver_name.
                           andthen (locate_library w st cur_driver_json driver_name found)
                             (\<lambda>located.
                               Inr (fst located,
                                    Row [el '''', el ''Library Path'', el driver_name]
                                      # fst (snd located),
                                    snd (snd located))))
                         else
                           Inr (found,
                                [Row [el '''', el ''Library Path'', el ''MISSING!'']], st))
                  (\<lambda>library.
                andthen (member icd ''device_extensions'') (\<lambda>dev_exts.
                andthen (extensions_table [el ''''] ''Device Extensions'' dev_exts) (\<lambda>dev_rows.
                andthen (member icd ''instance_extensions'') (\<lambda>inst_exts.
                andthen (extensions_table [el ''''] ''Instance Extensions'' inst_exts)
                  (\<lambda>inst_rows.
                    Inr (True, fst library,
                         [Row [el '''', el ''JSON File Version'', el version_text],
                          Row [el '''', el ''API Version'', el api_text]]
                         @ fst (snd library) @ dev_rows @ inst_rows,
                         snd (snd library))))))))))))))"

section \<open>\<^verbatim>\<open>PrintDriverInfo\<close>\<close>

text \<open>\<^verbatim>\<open>strstr(haystack, needle) != NULL\<close>.\<close>

fun starts_with :: "string \<Rightarrow> string \<Rightarrow> bool" where
  "starts_with s [] = True"
| "starts_with [] (n # ns) = False"
| "starts_with (c # cs) (n # ns) = (c = n \<and> starts_with cs ns)"

fun strstr :: "string \<Rightarrow> string \<Rightarrow> bool" where
  "strstr [] needle = (needle = [])"
| "strstr (c # cs) needle = (starts_with (c # cs) needle \<or> strstr cs needle)"

text \<open>
  The local variables of the function that its loops change, with the state of the
  process.
\<close>

record driver_scan =
  found_json :: bool
  found_lib :: bool
  found_this_lib :: bool
  proc :: process

text \<open>
  The statement \<^verbatim>\<open>if (ReadDriverJson(file, found_this_lib)) { found_json = true;
  found_lib |= found_this_lib; }\<close>, which occurs three times.
\<close>

definition read_and_count ::
  "world \<Rightarrow> string \<Rightarrow> driver_scan \<Rightarrow> fault + report_item list \<times> driver_scan" where
  "read_and_count w file s =
     (case ReadDriverJson w (proc s) file (found_this_lib s) of
        Inl f \<Rightarrow> Inl f
      | Inr (returned, this_lib, rows, st) \<Rightarrow>
          let s = s\<lparr>found_this_lib := this_lib, proc := st\<rparr>
          in Inr (rows,
                  if returned
                  then s\<lparr>found_json := True, found_lib := (found_lib s \<or> found_this_lib s)\<rparr>
                  else s))"

text \<open>The \<^verbatim>\<open>readdir\<close> loop over one folder; \<open>i\<close> counts the manifests shown.\<close>

fun driver_entries ::
  "world \<Rightarrow> string \<Rightarrow> string list \<Rightarrow> nat \<Rightarrow> driver_scan
     \<Rightarrow> fault + report_item list \<times> driver_scan" where
  "driver_entries w folder [] i s = Inr ([], s)"
| "driver_entries w folder (d_name # rest) i s =
     (if strstr d_name ''.json'' then
        let generic_string = snprintf (''['' @ decimal i @ '']'');
            cur_vulkan_driver_json = snprintf (folder @ ''/'' @ d_name)
        in (case read_and_count w cur_vulkan_driver_json s of
              Inl f \<Rightarrow> Inl f
            | Inr (rows, s) \<Rightarrow>
                (case driver_entries w folder rest (i + 1) s of
                   Inl f \<Rightarrow> Inl f
                 | Inr (rows', s) \<Rightarrow>
                     Inr (Row [er generic_string, el d_name, el ''''] # rows @ rows', s)))
      else driver_entries w folder rest i s)"

text \<open>
  The loop over \<open>driver_paths\<close>; \<open>dir\<close> is the index of the first folder of the list
  that is left, \<open>drivers_env_value\<close> the text \<^verbatim>\<open>getenv("VK_DRIVERS_PATH")\<close> points to
  when the loop runs.
\<close>

fun driver_folders ::
  "world \<Rightarrow> string \<Rightarrow> int \<Rightarrow> nat \<Rightarrow> string list \<Rightarrow> driver_scan
     \<Rightarrow> fault + report_item list \<times> driver_scan" where
  "driver_folders w drivers_env_value drivers_path_index dir [] s = Inr ([], s)"
| "driver_folders w drivers_env_value drivers_path_index dir (path # rest) s =
     (let heading =
            (if dir = 0 then [Row [el ''Standard Paths'', el '''', el '''']]
             else if drivers_path_index \<ge> 0 \<and> int dir = drivers_path_index
             then [Row [el ''VK_DRIVERS_PATH'', el drivers_env_value, el '''']]
             else [])
      in case opendir w path of
           None \<Rightarrow>
             (case driver_folders w drivers_env_value drivers_path_index (dir + 1) rest s of
                Inl f \<Rightarrow> Inl f
              | Inr (rows', s) \<Rightarrow>
                  Inr (heading @ [Row [er path, el ''No such folder'', el '''']] @ rows', s))
         | Some entries \<Rightarrow>
             (case driver_entries w path entries 0 s of
                Inl f \<Rightarrow> Inl f
              | Inr (rows, s) \<Rightarrow>
                  (case driver_folders w drivers_env_value drivers_path_index (dir + 1) rest s of
                     Inl f \<Rightarrow> Inl f
                   | Inr (rows', s) \<Rightarrow>
                       Inr (heading @ [Row [er path, el '''', el '''']] @ rows @ rows', s))))"

text \<open>One file named by \<^verbatim>\<open>VK_ICD_FILENAMES\<close>.\<close>

definition icd_file ::
  "world \<Rightarrow> string \<Rightarrow> driver_scan \<Rightarrow> fault + report_item list \<times> driver_scan" where
  "icd_file w tok s =
     (if access_R_OK w tok then
        (case read_and_count w tok s of
           Inl f \<Rightarrow> Inl f
         | Inr (rows, s) \<Rightarrow> Inr (Row [er tok, el '''', el ''''] # rows, s))
      else Inr ([Row [er tok, el ''No such file'', el '''']], s))"

text \<open>
  The loop \<^verbatim>\<open>while (tok != NULL) { ...; tok = strtok(NULL, ":"); }\<close> over
  \<^verbatim>\<open>VK_ICD_FILENAMES\<close>.  Its body calls \<^verbatim>\<open>ReadDriverJson\<close>, which may run the loop over
  \<^verbatim>\<open>LD_LIBRARY_PATH\<close> in \<^verbatim>\<open>FindLinuxSystemObject\<close>; the next token is therefore taken from
  where the pointer of \<^verbatim>\<open>strtok\<close> is after the body.
\<close>

function icd_loop ::
  "world \<Rightarrow> string \<Rightarrow> driver_scan \<Rightarrow> fault + report_item list \<times> driver_scan" where
  "icd_loop w tok s =
     (case icd_file w tok s of
        Inl f \<Rightarrow> Inl f
      | Inr (rows, s1) \<Rightarrow>
          (case strtok_from (olds (proc s1)) of
             (None, rest) \<Rightarrow> Inr (rows, s1\<lparr>proc := (proc s1)\<lparr>olds := rest\<rparr>\<rparr>)
           | (Some next_tok, rest) \<Rightarrow>
               (case icd_loop w next_tok (s1\<lparr>proc := (proc s1)\<lparr>olds := rest\<rparr>\<rparr>) of
                  Inl f \<Rightarrow> Inl f
                | Inr (rows', s2) \<Rightarrow> Inr (rows @ rows', s2))))"
  by pat_completeness auto
termination
proof (relation "measure (\<lambda>(w, tok, s). length (olds (proc s)))")
  show "wf (measure (\<lambda>(w, tok, s). length (olds (proc s))))" by simp
next
  fix w :: world and tok :: string and s s1 :: driver_scan
    and rows x rest next_tok and y :: "report_item list \<times> driver_scan"
  assume run: "icd_file w tok s = Inr y" and y: "(rows, s1) = y"
    and a: "(x, rest) = strtok_from (olds (proc s1))" and b: "x = Some next_tok"
  have find: "olds (snd (snd (FindLinuxSystemObject st n f c))) = olds st
      \<or> olds (snd (snd (FindLinuxSystemObject st n f c))) = []" for st n f c
    by (auto simp: FindLinuxSystemObject_def tokenised_def split: prod.splits option.splits)
  have locate: "olds st' = olds st \<or> olds st' = []"
    if "locate_library w st p n fl = Inr (fl', rs, st')" for st p n fl fl' rs st'
    using that find [of st n "CheckDriver w" True]
    unfolding locate_library_def andthen_def Let_def
    by (auto split: sum.splits option.splits if_splits prod.splits pipe.splits)
  have read: "olds st' = olds st \<or> olds st' = []"
    if "ReadDriverJson w st p fl = Inr (r, fl', rs, st')" for st p fl r fl' rs st'
    using that
    unfolding ReadDriverJson_def andthen_def
    by (auto split: sum.splits json_stream.splits if_splits dest: locate)
  from run y have "olds (proc s1) = olds (proc s) \<or> olds (proc s1) = []"
    unfolding icd_file_def read_and_count_def Let_def
    by (auto split: sum.splits if_splits prod.splits dest: read)
  then have le: "length (olds (proc s1)) \<le> length (olds (proc s))"
    by auto
  let ?t = "dropWhile (\<lambda>c. c = CHR '':'') (olds (proc s1))"
  from a b have ne: "?t \<noteq> []" and r: "rest = tl (dropWhile (\<lambda>c. c \<noteq> CHR '':'') ?t)"
    by (auto simp: strtok_from_def Let_def split: if_splits)
  have 2: "length ?t \<le> length (olds (proc s1))"
    by (rule length_dropWhile_le)
  have "length rest < length (olds (proc s1))"
  proof (cases "dropWhile (\<lambda>c. c \<noteq> CHR '':'') ?t = []")
    case True
    with r have "rest = []" by simp
    moreover from ne 2 have "olds (proc s1) \<noteq> []" by auto
    ultimately show ?thesis by simp
  next
    case False
    then have "length rest < length (dropWhile (\<lambda>c. c \<noteq> CHR '':'') ?t)"
      by (simp add: r)
    also have "\<dots> \<le> length ?t"
      by (rule length_dropWhile_le)
    finally show ?thesis using 2 by simp
  qed
  with le show "((w, next_tok, s1\<lparr>proc := (proc s1)\<lparr>olds := rest\<rparr>\<rparr>), w, tok, s)
      \<in> measure (\<lambda>(w, tok, s). length (olds (proc s)))"
    by simp
qed

declare icd_loop.simps [simp del]

text \<open>
  The function.  The state it starts in is an argument; the result is the value returned,
  the table printed and the state of the process at the end.  \<open>drivers_path_index\<close> is
  \<open>- 1\<close> or the number of standard folders.
\<close>

definition standard_driver_paths :: "environment \<Rightarrow> string list" where
  "standard_driver_paths env =
     [''/etc/vulkan/icd.d'', ''/usr/share/vulkan/icd.d'', ''/usr/local/etc/vulkan/icd.d'',
      ''/usr/local/share/vulkan/icd.d'',
      (case env ''HOME'' of
         None \<Rightarrow> ''~/.local/share/vulkan/icd.d''
       | Some home_env_value \<Rightarrow> home_env_value @ ''/.local/share/vulkan/icd.d'')]"

definition override_driver_paths :: "environment \<Rightarrow> string list" where
  "override_driver_paths env =
     (case env ''VK_DRIVERS_PATH'' of
        None \<Rightarrow> []
      | Some drivers_env_value \<Rightarrow>
          if all_tokens drivers_env_value = [] then [drivers_env_value]
          else all_tokens drivers_env_value)"

text \<open>Its last block, on \<^verbatim>\<open>VK_ICD_FILENAMES\<close>.\<close>

definition icd_filenames ::
  "world \<Rightarrow> driver_scan \<Rightarrow> fault + report_item list \<times> driver_scan" where
  "icd_filenames w s =
     (case environ (proc s) ''VK_ICD_FILENAMES'' of
        None \<Rightarrow> Inr ([], s)
      | Some icd_env_value \<Rightarrow>
          (case (case strtok_from icd_env_value of
                   (None, rest) \<Rightarrow>
                     icd_file w icd_env_value (s\<lparr>proc := (proc s)\<lparr>olds := rest\<rparr>\<rparr>)
                 | (Some tok, rest) \<Rightarrow>
                     icd_loop w tok
                       (s\<lparr>proc := (proc s)
                           \<lparr>environ := (environ (proc s))
                              (''VK_ICD_FILENAMES'' \<mapsto> after_strtok icd_env_value),
                            olds := rest\<rparr>\<rparr>)) of
             Inl f \<Rightarrow> Inl f
           | Inr (rows, s) \<Rightarrow>
               Inr (Row [el ''VK_ICD_FILENAMES'', el icd_env_value, el ''''] # rows, s)))"

definition PrintDriverInfo ::
  "world \<Rightarrow> process \<Rightarrow> fault + ErrorResults \<times> report_item list \<times> process" where
  "PrintDriverInfo w st =
     (let driver_paths = standard_driver_paths (environ st) @ override_driver_paths (environ st);
          drivers_path_index =
            (case environ st ''VK_DRIVERS_PATH'' of
               None \<Rightarrow> - 1
             | Some v \<Rightarrow> int (length (standard_driver_paths (environ st))));
          st = tokenised ''VK_DRIVERS_PATH'' st;
          drivers_env_value =
            (case environ st ''VK_DRIVERS_PATH'' of None \<Rightarrow> [] | Some v \<Rightarrow> v);
          s = \<lparr>found_json = False, found_lib = False, found_this_lib = False, proc = st\<rparr>
      in case driver_folders w drivers_env_value drivers_path_index 0 driver_paths s of
           Inl f \<Rightarrow> Inl f
         | Inr (folder_rows, s) \<Rightarrow>
             (case icd_filenames w s of
                Inl f \<Rightarrow> Inl f
              | Inr (icd_rows, s) \<Rightarrow>
                  Inr (if \<not> found_json s then MISSING_DRIVER_JSON
                       else if \<not> found_lib s then MISSING_DRIVER_LIB
                       else SUCCESSFUL,
                       BeginTable ''Vulkan Driver Info'' 3 # folder_rows @ icd_rows @ [EndTable],
                       proc s)))"

section \<open>Example systems\<close>

definition start :: process where
  "start = \<lparr>environ = no_environment, olds = []\<rparr>"

text \<open>A system without any folder or file.\<close>

definition empty_world :: world where
  "empty_world =
     \<lparr>opendir = (\<lambda>path. None),
      json_ifstream = (\<lambda>path. StreamFails),
      text_ifstream = (\<lambda>path. None),
      access_R_OK = (\<lambda>path. False),
      dlopen_error = (\<lambda>path. Some ''cannot open shared object file''),
      popen_fgets = (\<lambda>command. NoLine),
      localtime_now = june_2020\<rparr>"

text \<open>
  A system whose only driver manifest, \<^verbatim>\<open>/etc/vulkan/icd.d/a.json\<close>, is a well-formed
  document without the section \<^verbatim>\<open>ICD\<close>.
\<close>

definition manifest_without_icd :: json where
  "manifest_without_icd = JObject [(''file_format_version'', JString ''1.0.0'')]"

definition world_without_icd :: world where
  "world_without_icd =
     empty_world
       \<lparr>opendir := (\<lambda>path. if path = ''/etc/vulkan/icd.d'' then Some [''.'', ''..'', ''a.json'']
                            else None),
        json_ifstream := (\<lambda>path. if path = ''/etc/vulkan/icd.d/a.json''
                                  then Parsed manifest_without_icd else StreamFails)\<rparr>"

text \<open>The table printed for a system with that single folder and the given rows in it.\<close>

definition single_folder_table :: "report_item list \<Rightarrow> report_item list" where
  "single_folder_table rows =
     [BeginTable ''Vulkan Driver Info'' 3,
      Row [el ''Standard Paths'', el '''', el ''''],
      Row [er ''/etc/vulkan/icd.d'', el '''', el ''''],
      Row [er ''[0]'', el ''a.json'', el '''']] @ rows @
     [Row [er ''/usr/share/vulkan/icd.d'', el ''No such folder'', el ''''],
      Row [er ''/usr/local/etc/vulkan/icd.d'', el ''No such folder'', el ''''],
      Row [er ''/usr/local/share/vulkan/icd.d'', el ''No such folder'', el ''''],
      Row [er ''~/.local/share/vulkan/icd.d'', el ''No such folder'', el ''''],
      EndTable]"



text \<open>The value returned and the table printed, without the state of the process.\<close>

definition outcome ::
  "fault + ErrorResults \<times> report_item list \<times> process
     \<Rightarrow> fault + ErrorResults \<times> report_item list" where
  "outcome run = (case run of Inl f \<Rightarrow> Inl f | Inr (res, out, st) \<Rightarrow> Inr (res, out))"

section \<open>The candidates of the driver category\<close>

text \<open>
  The manifests \<^verbatim>\<open>PrintDriverInfo\<close> looks at: in every folder of \<open>driver_paths\<close> that can
  be opened the entries whose name contains \<^verbatim>\<open>.json\<close>, then the files named by
  \<^verbatim>\<open>VK_ICD_FILENAMES\<close> that can be read.
\<close>

definition folder_candidates :: "world \<Rightarrow> string \<Rightarrow> string list" where
  "folder_candidates w folder =
     (case opendir w folder of
        None \<Rightarrow> []
      | Some entries \<Rightarrow>
          map (\<lambda>d_name. snprintf (folder @ ''/'' @ d_name))
            (filter (\<lambda>d_name. strstr d_name ''.json'') entries))"

definition icd_candidates :: "world \<Rightarrow> environment \<Rightarrow> string list" where
  "icd_candidates w env =
     (case env ''VK_ICD_FILENAMES'' of
        None \<Rightarrow> []
      | Some icd_env_value \<Rightarrow>
          filter (access_R_OK w)
            (if all_tokens icd_env_value = [] then [icd_env_value]
             else all_tokens icd_env_value))"

definition driver_candidates :: "world \<Rightarrow> environment \<Rightarrow> string list" where
  "driver_candidates w env =
     concat (map (folder_candidates w) (standard_driver_paths env @ override_driver_paths env))
     @ icd_candidates w env"

text \<open>
  A manifest that counts: the file opens, it parses to a document that is not null, and
  the document has a section \<^verbatim>\<open>ICD\<close> that is not null.
\<close>

definition has_icd :: "world \<Rightarrow> string \<Rightarrow> bool" where
  "has_icd w file =
     (case json_ifstream w (c_str file) of
        Parsed root \<Rightarrow>
          (if isNull root then False
           else (case member root ''ICD'' of Inl f \<Rightarrow> False | Inr icd \<Rightarrow> \<not> isNull icd))
      | StreamFails \<Rightarrow> False
      | ParseFails messages \<Rightarrow> False)"






section \<open>\<^verbatim>\<open>PrintExplicitLayersInFolder\<close> and \<^verbatim>\<open>PrintLayerInfo\<close>\<close>

text \<open>
  The \<^verbatim>\<open>readdir\<close> loop of \<^verbatim>\<open>PrintExplicitLayersInFolder\<close>.  \<open>res\<close> is the local variable
  of that name; the result also says whether a manifest was seen (\<open>found_json\<close> in the
  source).
\<close>

fun explicit_entries ::
  "world \<Rightarrow> string \<Rightarrow> string list \<Rightarrow> nat \<Rightarrow> ErrorResults \<times> bool
     \<Rightarrow> fault + (ErrorResults \<times> bool) \<times> report_item list" where
  "explicit_entries w folder_loc [] i (res, seen) = Inr ((res, seen), [])"
| "explicit_entries w folder_loc (d_name # rest) i (res, seen) =
     (if strstr d_name ''.json'' then
        let generic_string = snprintf (''['' @ decimal i @ '']'');
            cur_layer = folder_loc @ ''/'' @ d_name
        in andthen
             (case json_ifstream w (c_str cur_layer) of
                StreamFails \<Rightarrow>
                  Inr (MISSING_LAYER_JSON,
                       [Row [el '''', er generic_string, el d_name,
                             el ''ERROR reading JSON file!'']])
              | ParseFails messages \<Rightarrow>
                  Inr (LAYER_JSON_PARSING_ERROR,
                       [Row [el '''', er generic_string, el d_name, el messages]])
              | Parsed root \<Rightarrow>
                  if isNull root then
                    Inr (LAYER_JSON_PARSING_ERROR,
                         [Row [el '''', er generic_string, el d_name, el '''']])
                  else
                    andthen (PrintExplicitLayerJsonInfo (c_str cur_layer) root) (\<lambda>rows.
                      Inr (res, Row [el '''', er generic_string, el d_name, el ''''] # rows)))
             (\<lambda>this.
                andthen (explicit_entries w folder_loc rest (i + 1) (fst this, True))
                  (\<lambda>others. Inr (fst others, snd this @ snd others)))
      else explicit_entries w folder_loc rest i (res, seen))"

definition PrintExplicitLayersInFolder ::
  "world \<Rightarrow> string \<Rightarrow> string \<Rightarrow> fault + ErrorResults \<times> report_item list" where
  "PrintExplicitLayersInFolder w ident folder_loc =
     (case opendir w (c_str folder_loc) of
        Some entries \<Rightarrow>
          andthen (explicit_entries w folder_loc entries 0 (SUCCESSFUL, False)) (\<lambda>scanned.
            Inr (fst (fst scanned),
                 Row [el '''', er ident, el folder_loc, el ''''] # snd scanned @
                 (if \<not> snd (fst scanned)
                  then [Row [el '''', er ident, el folder_loc, el ''No JSON files found'']]
                  else [])))
      | None \<Rightarrow>
          Inr (SUCCESSFUL, [Row [el '''', er ident, el folder_loc, el ''No such folder'']]))"

text \<open>
  A sequence of statements \<^verbatim>\<open>res = PrintExplicitLayersInFolder(ident, folder)\<close>, as the three
  loops of \<^verbatim>\<open>PrintLayerInfo\<close> over the explicit layers execute it: each call overwrites
  \<open>res\<close>.
\<close>

fun explicit_folders ::
  "world \<Rightarrow> (string \<times> string) list \<Rightarrow> ErrorResults \<Rightarrow> fault + ErrorResults \<times> report_item list"
  where
  "explicit_folders w [] res = Inr (res, [])"
| "explicit_folders w ((ident, folder_loc) # rest) res =
     andthen (PrintExplicitLayersInFolder w ident folder_loc) (\<lambda>this.
       andthen (explicit_folders w rest (fst this)) (\<lambda>others.
         Inr (fst others, snd this @ snd others)))"

text \<open>
  The implicit layers.  The counter \<open>i\<close> runs on from one folder to the next, and
  \<open>override_search_paths\<close> collects what \<^verbatim>\<open>PrintImplicitLayerJsonInfo\<close> appends.
\<close>

record implicit_scan =
  counter :: nat
  result :: ErrorResults
  override_search_paths :: "string list"

fun implicit_entries ::
  "world \<Rightarrow> environment \<Rightarrow> string \<Rightarrow> string list \<Rightarrow> implicit_scan
     \<Rightarrow> fault + report_item list \<times> implicit_scan" where
  "implicit_entries w env cur_layer_path [] s = Inr ([], s)"
| "implicit_entries w env cur_layer_path (d_name # rest) s =
     (if strstr d_name ''.json'' then
        let generic_string = snprintf (''['' @ decimal (counter s) @ '']'');
            cur_vulkan_layer_json = snprintf (cur_layer_path @ ''/'' @ d_name);
            s = s\<lparr>counter := counter s + 1\<rparr>
        in andthen
             (case json_ifstream w cur_vulkan_layer_json of
                StreamFails \<Rightarrow>
                  Inr ([Row [el '''', el ''ERROR reading JSON file!'', el '''', el '''']],
                       s\<lparr>result := MISSING_LAYER_JSON\<rparr>)
              | ParseFails messages \<Rightarrow>
                  Inr ([Row [el '''', el ''ERROR parsing JSON file!'', el messages, el '''']],
                       s\<lparr>result := LAYER_JSON_PARSING_ERROR\<rparr>)
              | Parsed root \<Rightarrow>
                  if isNull root then
                    Inr ([Row [el '''', el ''ERROR parsing JSON file!'', el '''', el '''']],
                         s\<lparr>result := LAYER_JSON_PARSING_ERROR\<rparr>)
                  else
                    andthen (PrintImplicitLayerJsonInfo (localtime_now w) env
                               cur_vulkan_layer_json root (override_search_paths s))
                      (\<lambda>printed.
                         Inr (fst printed, s\<lparr>override_search_paths := snd printed\<rparr>)))
             (\<lambda>this.
                andthen (implicit_entries w env cur_layer_path rest (snd this)) (\<lambda>others.
                  Inr (Row [er generic_string, el d_name, el '''', el ''''] # fst this
                       @ fst others, snd others)))
      else implicit_entries w env cur_layer_path rest s)"

fun implicit_folders ::
  "world \<Rightarrow> environment \<Rightarrow> string list \<Rightarrow> implicit_scan
     \<Rightarrow> fault + report_item list \<times> implicit_scan" where
  "implicit_folders w env [] s = Inr ([], s)"
| "implicit_folders w env (cur_layer_path # rest) s =
     (case opendir w cur_layer_path of
        Some entries \<Rightarrow>
          andthen (implicit_entries w env cur_layer_path entries s) (\<lambda>this.
            andthen (implicit_folders w env rest (snd this)) (\<lambda>others.
              Inr (Row [er cur_layer_path, el '''', el '''', el ''''] # fst this @ fst others,
                   snd others)))
      | None \<Rightarrow>
          andthen (implicit_folders w env rest s) (\<lambda>others.
            Inr (Row [er cur_layer_path, el ''Directory does not exist'', el '''', el '''']
                 # fst others, snd others)))"

definition implicit_layer_paths :: "environment \<Rightarrow> string list" where
  "implicit_layer_paths env =
     [''/etc/vulkan/implicit_layer.d'', ''/usr/share/vulkan/implicit_layer.d'',
      ''/usr/local/etc/vulkan/implicit_layer.d'', ''/usr/local/share/vulkan/implicit_layer.d'',
      (case env ''HOME'' of
         None \<Rightarrow> ''~/.local/share/vulkan/implicit_layer.d''
       | Some env_value \<Rightarrow> env_value @ ''/.local/share/vulkan/implicit_layer.d'')]"

text \<open>The first table of \<^verbatim>\<open>PrintLayerInfo\<close>.\<close>

definition implicit_layers ::
  "world \<Rightarrow> environment \<Rightarrow> fault + report_item list \<times> implicit_scan" where
  "implicit_layers w env =
     andthen (implicit_folders w env (implicit_layer_paths env)
                \<lparr>counter = 0, result = SUCCESSFUL, override_search_paths = []\<rparr>)
       (\<lambda>scanned.
          Inr (BeginTable ''Implicit Layers'' 4 # fst scanned @ [EndTable], snd scanned))"

text \<open>
  The folders of the second table, each with the identifier printed for it: those of the
  override paths, those of \<^verbatim>\<open>VK_LAYER_PATH\<close>, and the five fixed ones.
\<close>

definition override_layer_folders :: "string list \<Rightarrow> (string \<times> string) list" where
  "override_layer_folders paths = map (\<lambda>path. (''Override'', path)) paths"

definition environment_layer_folders :: "string \<Rightarrow> (string \<times> string) list" where
  "environment_layer_folders env_value =
     (if all_tokens env_value = [] then [(''VK_LAYER_PATH'', env_value)]
      else map (\<lambda>offset. (''Path '' @ decimal offset, all_tokens env_value ! offset))
             [0..<length (all_tokens env_value)])"

definition standard_layer_folders :: "environment \<Rightarrow> (string \<times> string) list" where
  "standard_layer_folders env =
     [(''/etc/vulkan'', ''/etc/vulkan/explicit_layer.d''),
      (''/usr/share/vulkan'', ''/usr/share/vulkan/explicit_layer.d''),
      (''/usr/local/etc/vulkan'', ''/usr/local/etc/vulkan/explicit_layer.d''),
      (''/usr/local/share/vulkan'', ''/usr/local/share/vulkan/explicit_layer.d''),
      (''$HOME/.local/share/vulkan/explicit_layer.d'',
       (case env ''HOME'' of
          None \<Rightarrow> ''~/.local/share/vulkan/explicit_layer.d''
        | Some env_value \<Rightarrow> env_value @ ''/.local/share/vulkan/explicit_layer.d''))]"

text \<open>
  The second table.  The arguments are the vector and the value of \<open>res\<close> that the first
  table leaves, and the state of the process.
\<close>

definition explicit_layers ::
  "world \<Rightarrow> process \<Rightarrow> string list \<Rightarrow> ErrorResults
     \<Rightarrow> fault + ErrorResults \<times> report_item list \<times> process" where
  "explicit_layers w st paths res =
     andthen (if length paths \<noteq> 0
              then andthen (explicit_folders w (override_layer_folders paths) res) (\<lambda>r.
                     Inr (fst r, Row [el ''Override Paths'', el '''', el '''', el ''''] # snd r))
              else Inr (res, [])) (\<lambda>overrides.
     andthen (case environ st ''VK_LAYER_PATH'' of
                None \<Rightarrow> Inr (fst overrides, [])
              | Some env_value \<Rightarrow>
                  andthen (explicit_folders w (environment_layer_folders env_value)
                             (fst overrides)) (\<lambda>r.
                    Inr (fst r, Row [el ''VK_LAYER_PATH'', el '''', el '''', el ''''] # snd r)))
       (\<lambda>from_environment.
     andthen (explicit_folders w (standard_layer_folders (environ st)) (fst from_environment))
       (\<lambda>standard.
          Inr (fst standard,
               BeginTable ''Explicit Layers'' 4 # snd overrides @ snd from_environment @
               Row [el ''Standard Paths'', el '''', el '''', el ''''] # snd standard @ [EndTable],
               tokenised ''VK_LAYER_PATH'' st))))"

definition PrintLayerInfo ::
  "world \<Rightarrow> process \<Rightarrow> fault + ErrorResults \<times> report_item list \<times> process" where
  "PrintLayerInfo w st =
     andthen (implicit_layers w (environ st)) (\<lambda>implicit.
       andthen (explicit_layers w st (override_search_paths (snd implicit))
                  (result (snd implicit))) (\<lambda>explicit.
         Inr (fst explicit, fst implicit @ fst (snd explicit), snd (snd explicit))))"



section \<open>\<^verbatim>\<open>PrintLayerSettingsFileInfo\<close>, \<^verbatim>\<open>PrintSystemInfo\<close> and \<^verbatim>\<open>main\<close>\<close>

text \<open>
  \<^verbatim>\<open>PrintLayerSettingsFileInfo\<close> in the Linux build.  Its variable \<open>res\<close> is initialised
  with \<^verbatim>\<open>SUCCESSFUL\<close> and never assigned.
\<close>

definition settings_files :: "environment \<Rightarrow> string list" where
  "settings_files env =
     [''/etc/vulkan/settings.d/'' @ ''vk_layer_settings.txt'',
      ''/usr/share/vulkan/settings.d/'' @ ''vk_layer_settings.txt'',
      ''/usr/local/etc/vulkan/settings.d/'' @ ''vk_layer_settings.txt'',
      ''/usr/local/share/vulkan/settings.d/'' @ ''vk_layer_settings.txt'',
      (case env ''HOME'' of
         None \<Rightarrow> ''~/.local/share/vulkan/settings.d/''
       | Some home_env_value \<Rightarrow> home_env_value @ ''/.local/share/vulkan/settings.d/'')
      @ ''vk_layer_settings.txt'']"

definition PrintLayerSettingsFileInfo ::
  "world \<Rightarrow> environment \<Rightarrow> ErrorResults \<times> report_item list" where
  "PrintLayerSettingsFileInfo w env =
     (let res = SUCCESSFUL;
          rows =
            (case env ''VK_LAYER_SETTINGS_PATH'' of
               Some settings_path \<Rightarrow>
                 let full_file = settings_path @ ''/'' @ ''vk_layer_settings.txt''
                 in Row [el ''VK_LAYER_SETTINGS_PATH'', el settings_path, el '''', el '''']
                    # PrintSettingsJsonInfo (text_ifstream w full_file) full_file
             | None \<Rightarrow>
                 Row [el ''VK_LAYER_SETTINGS_PATH'', el ''Not Defined'', el '''', el '''']
                 # concat (map (\<lambda>set_file.
                              PrintSettingsJsonInfo (text_ifstream w set_file) set_file)
                            (settings_files env)))
      in (res, BeginTable ''Layer Settings File'' 4 # rows @ [EndTable]))"

text \<open>
  \<^verbatim>\<open>PrintSystemInfo\<close> in the Linux build, from the comment ``Print out the rest of the
  useful system information'' on.  The table \<^verbatim>\<open>Environment\<close> that the function prints
  first is left out; \<open>res\<close> is the value that part leaves in the variable of that name
  (\<^verbatim>\<open>SUCCESSFUL\<close> or \<^verbatim>\<open>SYSTEM_CALL_FAILURE\<close>).  \<^verbatim>\<open>PrintRunTimeInfo\<close> and \<^verbatim>\<open>PrintSDKInfo\<close>
  are not translated: they are arguments, functions of the state of the process that may
  return any value, print any rows and change the state.  Each of the five statements
  assigns to \<open>res\<close>.
\<close>

definition PrintSystemInfo ::
  "world \<Rightarrow> process \<Rightarrow> ErrorResults
     \<Rightarrow> (process \<Rightarrow> fault + ErrorResults \<times> report_item list \<times> process)
     \<Rightarrow> (process \<Rightarrow> fault + ErrorResults \<times> report_item list \<times> process)
     \<Rightarrow> fault + ErrorResults \<times> report_item list \<times> process" where
  "PrintSystemInfo w st res PrintRunTimeInfo PrintSDKInfo =
     (case PrintDriverInfo w st of
        Inl f \<Rightarrow> Inl f
      | Inr (res, driver_rows, st) \<Rightarrow>
     (case PrintRunTimeInfo st of
        Inl f \<Rightarrow> Inl f
      | Inr (res, runtime_rows, st) \<Rightarrow>
     (case PrintSDKInfo st of
        Inl f \<Rightarrow> Inl f
      | Inr (res, sdk_rows, st) \<Rightarrow>
     (case PrintLayerInfo w st of
        Inl f \<Rightarrow> Inl f
      | Inr (res, layer_rows, st) \<Rightarrow>
     (case PrintLayerSettingsFileInfo w (environ st) of
        (res, file_rows) \<Rightarrow>
          Inr (res, driver_rows @ runtime_rows @ sdk_rows @ layer_rows @ file_rows,
               st))))))"

text \<open>
  The exit status of \<^verbatim>\<open>main\<close>, from the call of \<^verbatim>\<open>PrintSystemInfo\<close> on.
  \<^verbatim>\<open>PrintVulkanInfo\<close> and \<^verbatim>\<open>PrintTestResults\<close> call the graphics API and external programs;
  they are represented by the values they return.
\<close>

definition main ::
  "world \<Rightarrow> process \<Rightarrow> ErrorResults
     \<Rightarrow> (process \<Rightarrow> fault + ErrorResults \<times> report_item list \<times> process)
     \<Rightarrow> (process \<Rightarrow> fault + ErrorResults \<times> report_item list \<times> process)
     \<Rightarrow> ErrorResults \<Rightarrow> ErrorResults \<Rightarrow> fault + int" where
  "main w st res PrintRunTimeInfo PrintSDKInfo PrintVulkanInfo PrintTestResults =
     (case PrintSystemInfo w st res PrintRunTimeInfo PrintSDKInfo of
        Inl f \<Rightarrow> Inl f
      | Inr (res, rows, st) \<Rightarrow>
          Inr (error_code
                 (if res \<noteq> SUCCESSFUL then res
                  else if PrintVulkanInfo \<noteq> SUCCESSFUL then PrintVulkanInfo
                  else PrintTestResults)))"

text \<open>A stand-in for the two functions that are not translated: it prints nothing and
  returns \<^verbatim>\<open>SUCCESSFUL\<close>.\<close>

definition prints_nothing ::
  "process \<Rightarrow> fault + ErrorResults \<times> report_item list \<times> process" where
  "prints_nothing st = Inr (SUCCESSFUL, [], st)"

section \<open>Properties of \<^verbatim>\<open>GenerateLibraryPath\<close>\<close>

lemma dropWhile_fix:
  "dropWhile (\<lambda>x. x \<noteq> c) (dropWhile (\<lambda>x. x \<noteq> c) xs) = dropWhile (\<lambda>x. x \<noteq> c) xs"
  by (induction xs) auto

lemma dropWhile_keeps:
  "c \<in> set xs \<Longrightarrow> c \<in> set (dropWhile (\<lambda>x. x \<noteq> c) xs)"
  by (induction xs) auto

lemma strrchr_cut_idem:
  "strrchr_cut c s = Some p \<Longrightarrow> strrchr_cut c p = Some p"
  by (auto simp: strrchr_cut_def dropWhile_fix dropWhile_keeps split: if_splits)

lemma strrchr_cut_absent:
  assumes "strrchr_cut c s = Some p" and "d \<notin> set s"
  shows "strrchr_cut d p = None"
proof -
  from assms(1) have "set p \<subseteq> set s"
    using set_dropWhileD [of _ "\<lambda>x. x \<noteq> c" "rev s"]
    by (auto simp: strrchr_cut_def split: if_splits)
  with assms(2) show ?thesis
    by (auto simp: strrchr_cut_def)
qed

text \<open>
  Cutting a second time changes nothing: after the first cut the buffer ends with the
  separator, so the last separator that \<^verbatim>\<open>strrchr\<close> finds is the final character.
\<close>

lemma cut_after_separator_idem:
  "cut_after_separator (cut_after_separator p) = cut_after_separator p"
proof (cases "strrchr_cut (CHR 0x5C) p")
  case (Some q)
  then show ?thesis
    by (simp add: cut_after_separator_def strrchr_cut_idem)
next
  case None
  show ?thesis
  proof (cases "strrchr_cut CHR ''/'' p")
    case (Some q)
    from None have "CHR 0x5C \<notin> set p"
      by (simp add: strrchr_cut_def split: if_splits)
    with Some have "strrchr_cut (CHR 0x5C) q = None"
      by (rule strrchr_cut_absent)
    with None Some show ?thesis
      by (simp add: cut_after_separator_def strrchr_cut_idem)
  next
    case n2: None
    with None show ?thesis
      by (simp add: cut_after_separator_def)
  qed
qed

text \<open>
  Hence the loop over the leading \<^verbatim>\<open>../\<close> segments never leaves the folder of the
  manifest, however many segments it consumes.
\<close>

lemma skip_parent_folder:
  "fst (skip_parent (cut_after_separator p) info) = cut_after_separator p"
  by (induction "cut_after_separator p" info rule: skip_parent.induct)
     (auto simp: cut_after_separator_idem)

text \<open>
  Claim C2.  The claim says that each leading \<^verbatim>\<open>../\<close> of a relative library reference
  ascends one directory from the folder of the manifest, so that \<^verbatim>\<open>../../x\<close> resolved
  against \<^verbatim>\<open>/a/b/c/m.json\<close> is \<^verbatim>\<open>/a/x\<close>.  The function consumes the two segments but
  stays in \<^verbatim>\<open>/a/b/c/\<close>: it returns \<^verbatim>\<open>/a/b/c/x\<close>.
\<close>

theorem GenerateLibraryPath_two_parents:
  "GenerateLibraryPath (Some ''/a/b/c/m.json'') (Some ''../../x'') MAX_STRING_LENGTH
     = Inr (Some ''/a/b/c/x'')"
  by (simp add: GenerateLibraryPath_def MAX_STRING_LENGTH_def cut_after_separator_def
      strrchr_cut_def)

section \<open>Properties of the settings parser\<close>

lemma takeWhile_append_stop:
  "x \<in> set xs \<Longrightarrow> \<not> P x \<Longrightarrow> takeWhile P (xs @ ys) = takeWhile P xs"
  by (induction xs) auto

text \<open>The index arithmetic of \<^verbatim>\<open>TrimWhitespace\<close> removes the white space at both ends.\<close>

lemma TrimWhitespace_spec_trim:
  "TrimWhitespace s default_whitespace = spec_trim s"
proof -
  let ?P = "\<lambda>c. c \<in> set default_whitespace"
  let ?a = "takeWhile ?P s" and ?b = "dropWhile ?P s"
  have s: "s = ?a @ ?b" by simp
  show ?thesis
  proof (cases "?b = []")
    case True
    then have "length ?a = length s"
      by (metis append_Nil2 s)
    then have "TrimWhitespace s default_whitespace = []"
      by (simp add: TrimWhitespace_def)
    moreover have "spec_trim s = []"
      unfolding spec_trim_def True by simp
    ultimately show ?thesis by simp
  next
    case False
    then have ne: "length ?a \<noteq> length s"
      by (metis append_eq_conv_conj drop_all le_refl s)
    from False have "\<not> ?P (hd ?b)"
      using hd_dropWhile by blast
    moreover from False have "hd ?b \<in> set (rev ?b)" by simp
    ultimately have tw: "takeWhile ?P (rev ?b @ rev ?a) = takeWhile ?P (rev ?b)"
      by (rule takeWhile_append_stop[rotated])
    have "rev s = rev ?b @ rev ?a"
      by (metis rev_append s)
    then have tw2: "takeWhile ?P (rev s) = takeWhile ?P (rev ?b)"
      using tw by simp
    let ?k = "length (takeWhile ?P (rev ?b))"
    have "takeWhile ?P (rev ?b) \<noteq> rev ?b"
      using \<open>\<not> ?P (hd ?b)\<close> \<open>hd ?b \<in> set (rev ?b)\<close>
      by (metis set_takeWhileD)
    then have klt: "?k < length ?b"
      by (metis length_rev length_takeWhile_le le_neq_implies_less takeWhile_eq_take
          take_all_iff order_refl)
    have len: "length s = length ?a + length ?b"
      by (metis length_append s)
    have range: "length s - 1 - ?k - length ?a + 1 = length ?b - ?k"
      using klt len by linarith
    have dr: "drop (length ?a) s = ?b"
      by (simp add: dropWhile_eq_drop)
    have "take (length ?b - ?k) ?b = rev (drop ?k (rev ?b))"
      by (simp add: rev_drop)
    also have "\<dots> = rev (dropWhile ?P (rev ?b))"
      by (simp add: dropWhile_eq_drop)
    finally have "take (length ?b - ?k) ?b = rev (dropWhile ?P (rev ?b))" .
    with ne range dr tw2 show ?thesis
      by (simp add: TrimWhitespace_def spec_trim_def Let_def)
  qed
qed

lemma take_find: "take (length (takeWhile Q t)) t = takeWhile Q t"
  by (induction t) auto

lemma drop_find: "drop (Suc (length (takeWhile Q t))) t = tl (dropWhile Q t)"
  by (induction t) auto

text \<open>One round of the loop adds to the map exactly the setting the specification reads
  from the line, and nothing for a line the specification skips.\<close>

lemma settings_line_spec:
  "settings_line line m =
     (case spec_setting line of None \<Rightarrow> m | Some (b, p) \<Rightarrow> settings_add b p m)"
proof -
  define t where "t = spec_trim line"
  define key where "key = spec_trim (takeWhile (\<lambda>x. x \<noteq> CHR ''='') t)"
  show ?thesis
  proof (cases "t = [] \<or> take 1 t = ''#'' \<or> CHR ''='' \<notin> set t")
    case True
    then show ?thesis
      unfolding settings_line_def spec_setting_def TrimWhitespace_spec_trim Let_def t_def[symmetric]
      by (auto simp: find_char_def)
  next
    case False
    then have eq: "find_char CHR ''='' t = Some (length (takeWhile (\<lambda>x. x \<noteq> CHR ''='') t))"
      by (simp add: find_char_def)
    show ?thesis
    proof (cases "CHR ''.'' \<in> set key")
      case True
      then have "find_char CHR ''.'' key = Some (length (takeWhile (\<lambda>x. x \<noteq> CHR ''.'') key))"
        by (simp add: find_char_def)
      with True False show ?thesis
        unfolding settings_line_def spec_setting_def TrimWhitespace_spec_trim Let_def
          t_def[symmetric] eq option.case take_find key_def[symmetric]
        by (simp add: take_find drop_find)
    next
      case f2: False
      then have "find_char CHR ''.'' key = None"
        by (simp add: find_char_def)
      with f2 False show ?thesis
        unfolding settings_line_def spec_setting_def TrimWhitespace_spec_trim Let_def
          t_def[symmetric] eq option.case take_find key_def[symmetric]
        by (simp add: drop_find)
    qed
  qed
qed

subsection \<open>The map stays ordered\<close>

lemma string_less_irrefl: "\<not> string_less a a"
  by (induction a) auto

lemma string_less_trans: "string_less a b \<Longrightarrow> string_less b c \<Longrightarrow> string_less a c"
proof (induction a b arbitrary: c rule: string_less.induct)
  case (2 b bs)
  then show ?case by (cases c) auto
next
  case (4 a as b bs)
  then show ?case by (cases c) auto
qed auto

lemma string_less_total: "string_less a b \<or> a = b \<or> string_less b a"
proof (induction a b rule: string_less.induct)
  case (4 a as b bs)
  then show ?case
    using of_char_eq_iff [of a b, where ?'a = nat] by (auto simp: not_less)
qed auto

lemma settings_add_keys:
  "set (map fst (settings_add k p m)) = insert k (set (map fst m))"
  by (induction k p m rule: settings_add.induct) auto

lemma settings_add_sorted:
  "sorted_wrt string_less (map fst m) \<Longrightarrow> sorted_wrt string_less (map fst (settings_add k p m))"
proof (induction k p m rule: settings_add.induct)
  case (1 k p)
  then show ?case by simp
next
  case (2 k p k' v rest)
  show ?case
  proof (cases "k = k'")
    case True
    with 2 show ?thesis by simp
  next
    case False
    show ?thesis
    proof (cases "string_less k k'")
      case True
      with False 2(2) show ?thesis
        by (auto intro: string_less_trans)
    next
      case f: False
      with False have "string_less k' k"
        using string_less_total [of k k'] by auto
      with False f 2 show ?thesis
        using settings_add_keys [of k p rest] by auto
    qed
  qed
qed

lemma map_of_settings_add:
  "sorted_wrt string_less (map fst m) \<Longrightarrow>
   map_of (settings_add k p m) b =
     (if b = k then Some ((case map_of m k of None \<Rightarrow> [] | Some v \<Rightarrow> v) @ [p])
      else map_of m b)"
proof (induction k p m rule: settings_add.induct)
  case (1 k p)
  then show ?case by simp
next
  case (2 k p k' v rest)
  show ?case
  proof (cases "k = k'")
    case True
    then show ?thesis by simp
  next
    case False
    show ?thesis
    proof (cases "string_less k k'")
      case True
      have "k \<notin> fst ` set rest"
      proof
        assume "k \<in> fst ` set rest"
        with 2(2) have "string_less k' k" by auto
        with True show False
          using string_less_trans string_less_irrefl by blast
      qed
      then have "map_of rest k = None"
        by (simp add: map_of_eq_None_iff)
      with True False show ?thesis by simp
    next
      case f: False
      with False 2 show ?thesis by (cases "b = k") auto
    qed
  qed
qed

subsection \<open>The loop over the lines\<close>

lemma spec_lines_nonempty: "spec_lines s \<noteq> []"
  by (induction s) (auto split: list.splits)

lemma spec_lines_split:
  "spec_lines s =
     (if dropWhile (\<lambda>c. c \<noteq> CHR 0x0A) s = [] then [takeWhile (\<lambda>c. c \<noteq> CHR 0x0A) s]
      else takeWhile (\<lambda>c. c \<noteq> CHR 0x0A) s #
           spec_lines (tl (dropWhile (\<lambda>c. c \<noteq> CHR 0x0A) s)))"
proof (induction s)
  case Nil
  then show ?case by simp
next
  case (Cons c cs)
  then show ?case
    by (cases "spec_lines (tl (dropWhile (\<lambda>c. c \<noteq> CHR 0x0A) cs))")
       (auto simp: spec_lines_nonempty split: list.splits)
qed

lemma read_settings_fold:
  "read_settings stream m = foldl (\<lambda>acc l. settings_line l acc) m (spec_lines stream)"
proof (induction stream m rule: read_settings.induct)
  case (1 stream settings)
  show ?case
  proof (cases "dropWhile (\<lambda>c. c \<noteq> CHR 0x0A) stream = []")
    case True
    then show ?thesis
      by (subst read_settings.simps, subst spec_lines_split) (simp add: Let_def)
  next
    case False
    with 1 [OF refl refl refl False] show ?thesis
      by (subst read_settings.simps, subst spec_lines_split) (auto simp: Let_def)
  qed
qed

lemma settings_line_sorted:
  "sorted_wrt string_less (map fst m) \<Longrightarrow> sorted_wrt string_less (map fst (settings_line l m))"
  by (auto simp: settings_line_spec settings_add_sorted split: option.splits)

lemma map_of_fold_settings:
  "sorted_wrt string_less (map fst m) \<Longrightarrow>
   map_of (foldl (\<lambda>acc l. settings_line l acc) m ls) b =
     (if spec_bucket ls b = [] then map_of m b
      else Some ((case map_of m b of None \<Rightarrow> [] | Some v \<Rightarrow> v) @ spec_bucket ls b))"
proof (induction ls arbitrary: m)
  case Nil
  then show ?case by (simp add: spec_bucket_def map_filter_simps)
next
  case (Cons l ls)
  have step: "sorted_wrt string_less (map fst (settings_line l m))"
    using Cons.prems by (rule settings_line_sorted)
  show ?case
  proof (cases "spec_setting l")
    case None
    then have "settings_line l m = m" and "spec_bucket (l # ls) b = spec_bucket ls b"
      by (simp_all add: settings_line_spec spec_bucket_def map_filter_simps)
    with Cons show ?thesis by simp
  next
    case (Some e)
    obtain k p where e: "e = (k, p)" by (cases e)
    with Some have sl: "settings_line l m = settings_add k p m"
      by (simp add: settings_line_spec)
    have sb: "spec_bucket (l # ls) b = (if k = b then p # spec_bucket ls b else spec_bucket ls b)"
      using Some e by (simp add: spec_bucket_def map_filter_simps)
    show ?thesis
      using Cons.IH [OF step] Cons.prems
      by (simp add: sl sb map_of_settings_add split: option.splits)
  qed
qed

lemma read_settings_buckets:
  "map_of (read_settings text []) component =
     (if spec_bucket (spec_lines text) component = [] then None
      else Some (spec_bucket (spec_lines text) component))"
  using map_of_fold_settings [of "[]" "spec_lines text" component]
  by (simp add: read_settings_fold)

text \<open>
  Claim C6, as stated, fails on its own example.  The key \<^verbatim>\<open>.globalOnly\<close> contains a dot,
  at position 0, so the text in front of the dot, the empty text, is the component: the
  setting is filed under the component with the empty name, and no component
  \<^verbatim>\<open>--None--\<close> exists after the example has been read.
\<close>

theorem settings_example_counterexample:
  "map_of (read_settings settings_example []) ''--None--''
     \<noteq> Some [\<lparr>name = ''globalOnly'', value = ''x''\<rparr>]"
  by code_simp

text \<open>
  Claim C6, amended.  For every text and every component name, the vector stored under the
  component is the sequence of the settings that the rules of the specification read from
  the lines of the text for that component, in the order of the lines, and a component
  without settings has no entry: blank lines, lines that start with \<^verbatim>\<open>#\<close> and lines
  without \<^verbatim>\<open>=\<close> add nothing, the key is split at its first dot, a key without a dot goes
  to \<^verbatim>\<open>--None--\<close>, and keys and values are trimmed.  On the example the result is the
  component \<^verbatim>\<open>LayerA\<close> with \<^verbatim>\<open>setting1 = true\<close> and \<^verbatim>\<open>setting2 = 42\<close> in this order, and
  the component with the empty name with \<^verbatim>\<open>globalOnly = x\<close>; \<^verbatim>\<open>badline\<close> adds nothing.
\<close>

theorem settings_parse_amended:
  "map_of (read_settings text []) component =
     (if spec_bucket (spec_lines text) component = [] then None
      else Some (spec_bucket (spec_lines text) component))
   \<and> read_settings settings_example [] =
       [('''', [\<lparr>name = ''globalOnly'', value = ''x''\<rparr>]),
        (''LayerA'', [\<lparr>name = ''setting1'', value = ''true''\<rparr>,
                      \<lparr>name = ''setting2'', value = ''42''\<rparr>])]"
proof
  show "map_of (read_settings text []) component =
     (if spec_bucket (spec_lines text) component = [] then None
      else Some (spec_bucket (spec_lines text) component))"
    by (rule read_settings_buckets)
  show "read_settings settings_example [] =
       [('''', [\<lparr>name = ''globalOnly'', value = ''x''\<rparr>]),
        (''LayerA'', [\<lparr>name = ''setting1'', value = ''true''\<rparr>,
                      \<lparr>name = ''setting2'', value = ''42''\<rparr>])]"
    by code_simp
qed

section \<open>Properties of the enablement of implicit layers\<close>

text \<open>The first key of an iteration is a member name or the index 0, never null.\<close>

lemma keys_shape:
  obtains "keys toggle = []"
  | s rest where "keys toggle = JString s # rest"
  | s rest where "keys toggle = JNum s # rest"
proof (cases toggle)
  case (JArray xs)
  show ?thesis
  proof (cases xs)
    case Nil
    with JArray that(1) show ?thesis by simp
  next
    case (Cons x xs')
    with JArray have "keys toggle =
        JNum (decimal 0) # map (\<lambda>i. JNum (decimal i)) [Suc 0..<Suc (length xs')]"
      by (simp add: upt_conv_Cons del: upt_Suc)
    with that(3) show ?thesis by blast
  qed
next
  case (JObject ms)
  with that(1,2) show ?thesis by (cases ms) auto
qed (use that(1) in simp_all)

lemma enable_loop_keys:
  "enable_loop env (keys toggle) l =
     Inr (case spec_toggle_variable toggle of
            None \<Rightarrow> l
          | Some variable \<Rightarrow>
              if spec_env_int env variable \<noteq> 0
              then l\<lparr>enable_env_variable := variable, enabled := True, enable_var_set := True\<rparr>
              else l\<lparr>enable_env_variable := variable, enabled := False\<rparr>)"
  by (rule keys_shape [of toggle])
     (auto simp: spec_toggle_variable_def spec_env_int_def isNull_def andthen_def Let_def
           split: option.splits)

lemma disable_loop_keys:
  "\<exists>l'. disable_loop env (keys toggle) l = Inr l' \<and> expired l' = expired l \<and>
     enabled l' =
       (case spec_toggle_variable toggle of
          None \<Rightarrow> enabled l
        | Some variable \<Rightarrow> if spec_env_int env variable > 0 then False else enabled l)"
  by (rule keys_shape [of toggle])
     (auto simp: spec_toggle_variable_def spec_env_int_def isNull_def andthen_def Let_def
           split: option.splits)


lemma toggles_expired_false:
  assumes "evaluate_toggles env layer = Inr l"
  shows "\<not> expired l"
proof -
  from assms obtain enable l1 disable
    where "(if \<not> isNull enable then enable_loop env (keys enable) initial_locals
            else Inr initial_locals) = Inr l1"
      and fin: "(if \<not> isNull disable then disable_loop env (keys disable) l1 else Inr l1) = Inr l"
    unfolding evaluate_toggles_def andthen_def by (auto split: sum.splits)
  then have "\<not> expired l1"
    by (auto simp: enable_loop_keys initial_locals_def split: if_splits option.splits)
  with fin disable_loop_keys [of env disable l1] show ?thesis
    by (auto split: if_splits)
qed



subsection \<open>The expiration\<close>

lemma PrintImplicitLayerJsonInfo_run:
  assumes "PrintImplicitLayerJsonInfo now env file root paths = Inr (out, paths')"
  obtains explicit_rows layer override_paths_json recorded l expiration_json checked
  where "PrintExplicitLayerJsonInfo file root = Inr explicit_rows"
    and "member root ''layer'' = Inr layer"
    and "member layer ''override_paths'' = Inr override_paths_json"
    and "record_override_paths override_paths_json paths = Inr recorded"
    and "evaluate_toggles env layer = Inr l"
    and "member layer ''expiration'' = Inr expiration_json"
    and "expiration_step now expiration_json l = Inr checked"
    and "out = explicit_rows @ fst recorded @ fst checked @ state_rows (snd checked)"
    and "paths' = snd recorded"
  using assms unfolding PrintImplicitLayerJsonInfo_def andthen_def
  by (auto split: sum.splits)

text \<open>The block on the expiration touches neither flag of a layer that is not enabled.\<close>

lemma expiration_step_disabled:
  "\<not> enabled l \<Longrightarrow> expiration_step now expiration_json l = Inr checked \<Longrightarrow> snd checked = l"
  by (auto simp: expiration_step_def andthen_def Let_def split: sum.splits if_splits)

text \<open>
  Claim C8.  When the toggles leave the layer disabled, the row \<^verbatim>\<open>Enabled State\<close>, third
  from the end of what the function prints, says \<^verbatim>\<open>DISABLED\<close>, whatever the manifest
  declares as its expiration and whatever the time is: never \<^verbatim>\<open>EXPIRED\<close>.
\<close>

theorem disabled_layer_not_expired:
  assumes "PrintImplicitLayerJsonInfo now env file root paths = Inr (out, paths')"
    and "member root ''layer'' = Inr layer"
    and "evaluate_toggles env layer = Inr l"
    and "\<not> enabled l"
  shows "\<exists>before enable_row disable_row.
           out = before @ [Row [el '''', el '''', el ''Enabled State'', el ''DISABLED''],
                           enable_row, disable_row]"
proof -
  from assms(1) obtain explicit_rows layer' override_paths_json recorded l' expiration_json
      checked
    where "PrintExplicitLayerJsonInfo file root = Inr explicit_rows"
      and a: "member root ''layer'' = Inr layer'"
      and "member layer' ''override_paths'' = Inr override_paths_json"
      and "record_override_paths override_paths_json paths = Inr recorded"
      and b: "evaluate_toggles env layer' = Inr l'"
      and c: "member layer' ''expiration'' = Inr expiration_json"
      and d: "expiration_step now expiration_json l' = Inr checked"
      and e: "out = explicit_rows @ fst recorded @ fst checked @ state_rows (snd checked)"
      and "paths' = snd recorded"
    by (rule PrintImplicitLayerJsonInfo_run)
  from a assms(2) have "layer' = layer" by simp
  with b assms(3) have "l' = l" by simp
  with d assms(4) have same: "snd checked = l"
    using expiration_step_disabled by blast
  have "\<not> expired l"
    using assms(3) by (rule toggles_expired_false)
  with assms(4) same have "state_rows (snd checked) =
      [Row [el '''', el '''', el ''Enabled State'', el ''DISABLED''],
       Row [el '''', er ''Enable Env Var'', el (enable_env_variable l),
            el (if enable_var_set l then '''' else ''Not Defined'')],
       Row [el '''', er ''Disable Env Var'', el (disable_env_variable l),
            el (if disable_var_set l then disable_env_value l else ''Not Defined'')]]"
    by (simp add: state_rows_def)
  with e have "out = (explicit_rows @ fst recorded @ fst checked) @
       [Row [el '''', el '''', el ''Enabled State'', el ''DISABLED''],
        Row [el '''', er ''Enable Env Var'', el (enable_env_variable l),
             el (if enable_var_set l then '''' else ''Not Defined'')],
        Row [el '''', er ''Disable Env Var'', el (disable_env_variable l),
             el (if disable_var_set l then disable_env_value l else ''Not Defined'')]]"
    by simp
  then show ?thesis by blast
qed

theorem disabled_layer_not_expired_witness:
  "PrintImplicitLayerJsonInfo june_2020 both_set ''a.json'' toggled_manifest [] =
     Inr (expiring_manifest_rows @
          [Row [el '''', el ''Expiration'', el ''2000/1/1 0:0'', el ''''],
           Row [el '''', el '''', el ''Enabled State'', el ''DISABLED''],
           Row [el '''', er ''Enable Env Var'', el ''ENABLE_A'', el ''''],
           Row [el '''', er ''Disable Env Var'', el ''DISABLE_A'', el ''1'']], [])
   \<and> member toggled_manifest ''layer'' = Inr toggled_layer
   \<and> (\<exists>l. evaluate_toggles both_set toggled_layer = Inr l \<and> \<not> enabled l)
   \<and> (\<exists>before enable_row disable_row.
         expiring_manifest_rows @
          [Row [el '''', el ''Expiration'', el ''2000/1/1 0:0'', el ''''],
           Row [el '''', el '''', el ''Enabled State'', el ''DISABLED''],
           Row [el '''', er ''Enable Env Var'', el ''ENABLE_A'', el ''''],
           Row [el '''', er ''Disable Env Var'', el ''DISABLE_A'', el ''1'']]
         = before @ [Row [el '''', el '''', el ''Enabled State'', el ''DISABLED''],
                     enable_row, disable_row])"
proof -
  let ?l = "\<lparr>enabled = False, expired = False,
      enable_env_variable = ''ENABLE_A'', enable_var_set = True,
      disable_env_variable = ''DISABLE_A'', disable_var_set = True,
      disable_env_value = ''1''\<rparr>"
  have h1: "PrintImplicitLayerJsonInfo june_2020 both_set ''a.json'' toggled_manifest [] =
     Inr (expiring_manifest_rows @
          [Row [el '''', el ''Expiration'', el ''2000/1/1 0:0'', el ''''],
           Row [el '''', el '''', el ''Enabled State'', el ''DISABLED''],
           Row [el '''', er ''Enable Env Var'', el ''ENABLE_A'', el ''''],
           Row [el '''', er ''Disable Env Var'', el ''DISABLE_A'', el ''1'']], [])"
    by code_simp
  have h2: "member toggled_manifest ''layer'' = Inr toggled_layer"
    by (simp add: toggled_manifest_def)
  have h3: "evaluate_toggles both_set toggled_layer = Inr ?l"
    by code_simp
  have h4: "\<not> enabled ?l"
    by simp
  from disabled_layer_not_expired [OF h1 h2 h3 h4] h1 h2 h3 h4 show ?thesis
    by blast
qed

text \<open>
  A text of another length than 16 characters makes the block on the expiration do
  nothing.
\<close>

lemma expiration_step_other_length:
  "length (c_str s) \<noteq> 16 \<Longrightarrow> expiration_step now (JString s) l = Inr checked
     \<Longrightarrow> checked = ([], l)"
  by (auto simp: expiration_step_def andthen_def isNull_def Let_def split: if_splits)

text \<open>
  Claim C10.  When the expiration of the manifest is a text whose length, as \<^verbatim>\<open>strlen\<close>
  measures it, is not 16, the report of the function is made of the rows of
  \<^verbatim>\<open>PrintExplicitLayerJsonInfo\<close>, the row of the override paths if there is one, and the
  three last rows, which show the state exactly as the toggles left it: no row on the
  expiration is printed, no date is read, and the layer is not marked expired.
\<close>

theorem expiration_of_other_length_skipped:
  assumes "PrintImplicitLayerJsonInfo now env file root paths = Inr (out, paths')"
    and "member root ''layer'' = Inr layer"
    and "member layer ''expiration'' = Inr (JString s)"
    and "length (c_str s) \<noteq> 16"
  shows "\<exists>explicit_rows override_paths_json recorded l.
           PrintExplicitLayerJsonInfo file root = Inr explicit_rows
           \<and> member layer ''override_paths'' = Inr override_paths_json
           \<and> record_override_paths override_paths_json paths = Inr recorded
           \<and> evaluate_toggles env layer = Inr l
           \<and> out = explicit_rows @ fst recorded @ state_rows l
           \<and> \<not> expired l"
proof -
  from assms(1) obtain explicit_rows layer' override_paths_json recorded l expiration_json
      checked
    where x: "PrintExplicitLayerJsonInfo file root = Inr explicit_rows"
      and a: "member root ''layer'' = Inr layer'"
      and o: "member layer' ''override_paths'' = Inr override_paths_json"
      and r: "record_override_paths override_paths_json paths = Inr recorded"
      and b: "evaluate_toggles env layer' = Inr l"
      and c: "member layer' ''expiration'' = Inr expiration_json"
      and d: "expiration_step now expiration_json l = Inr checked"
      and e: "out = explicit_rows @ fst recorded @ fst checked @ state_rows (snd checked)"
      and "paths' = snd recorded"
    by (rule PrintImplicitLayerJsonInfo_run)
  from a assms(2) have same: "layer' = layer" by simp
  with c assms(3) have "expiration_json = JString s" by simp
  with d assms(4) have "checked = ([], l)"
    using expiration_step_other_length by blast
  with e have "out = explicit_rows @ fst recorded @ state_rows l" by simp
  moreover from b have "\<not> expired l" by (rule toggles_expired_false)
  ultimately show ?thesis
    using x o r b same by blast
qed

theorem expiration_of_other_length_skipped_witness:
  "PrintImplicitLayerJsonInfo june_2020 no_environment ''a.json''
       (expiring_manifest ''2000-01-01'') [''/opt''] =
     Inr (expiring_manifest_rows @ untoggled_state_rows ''ENABLED'', [''/opt''])
   \<and> length (c_str ''2000-01-01'') \<noteq> 16
   \<and> (\<exists>explicit_rows override_paths_json recorded l layer.
         member (expiring_manifest ''2000-01-01'') ''layer'' = Inr layer
         \<and> member layer ''expiration'' = Inr (JString ''2000-01-01'')
         \<and> PrintExplicitLayerJsonInfo ''a.json'' (expiring_manifest ''2000-01-01'')
             = Inr explicit_rows
         \<and> member layer ''override_paths'' = Inr override_paths_json
         \<and> record_override_paths override_paths_json [''/opt''] = Inr recorded
         \<and> evaluate_toggles no_environment layer = Inr l
         \<and> expiring_manifest_rows @ untoggled_state_rows ''ENABLED''
             = explicit_rows @ fst recorded @ state_rows l
         \<and> \<not> expired l)"
proof -
  let ?layer = "JObject [(''api_version'', JString ''1.0.0''),
                         (''description'', JString ''a layer''),
                         (''expiration'', JString ''2000-01-01''),
                         (''library_path'', JString ''./libVkLayer_a.so''),
                         (''name'', JString ''VK_LAYER_a'')]"
  have h1: "PrintImplicitLayerJsonInfo june_2020 no_environment ''a.json''
       (expiring_manifest ''2000-01-01'') [''/opt''] =
     Inr (expiring_manifest_rows @ untoggled_state_rows ''ENABLED'', [''/opt''])"
    by code_simp
  have h2: "member (expiring_manifest ''2000-01-01'') ''layer'' = Inr ?layer"
    by (simp add: expiring_manifest_def)
  have h3: "member ?layer ''expiration'' = Inr (JString ''2000-01-01'')"
    by simp
  have h4: "length (c_str ''2000-01-01'') \<noteq> 16"
    by (simp add: c_str_def)
  from expiration_of_other_length_skipped [OF h1 h2 h3 h4] h1 h2 h3 h4 show ?thesis
    by blast
qed

text \<open>
  Claim C1.  The claim says that a layer which the toggles leave enabled is reported as
  expired once the current time has reached the expiration, and as enabled before.  The
  function stores the result of \<^verbatim>\<open>checkExpiration\<close>, which is \<^verbatim>\<open>still_valid\<close>, in its
  variable \<^verbatim>\<open>expired\<close>.  On 2020-06-15 at 12:30 a layer without toggles whose expiration
  is \<^verbatim>\<open>2000-01-01-00-00\<close> is therefore reported as \<^verbatim>\<open>DISABLED\<close>, not as \<^verbatim>\<open>EXPIRED\<close>,
  and the same layer with the expiration \<^verbatim>\<open>2030-07-16-13-31\<close> is reported as
  \<^verbatim>\<open>EXPIRED\<close>.
\<close>

theorem expiration_state_inverted:
  "PrintImplicitLayerJsonInfo june_2020 no_environment ''a.json''
       (expiring_manifest ''2000-01-01-00-00'') [] =
     Inr (expiring_manifest_rows @
          [Row [el '''', el ''Expiration'', el ''2000/1/1 0:0'', el '''']] @
          untoggled_state_rows ''DISABLED'', [])
   \<and> PrintImplicitLayerJsonInfo june_2020 no_environment ''a.json''
       (expiring_manifest ''2030-07-16-13-31'') [] =
     Inr (expiring_manifest_rows @
          [Row [el '''', el ''Expiration'', el ''2030/7/16 13:31'', el '''']] @
          untoggled_state_rows ''EXPIRED'', [])"
  by code_simp

section \<open>Properties of the driver category\<close>

subsection \<open>One manifest\<close>

text \<open>
  \<^verbatim>\<open>ReadDriverJson\<close> returns \<^verbatim>\<open>true\<close> exactly for a manifest that counts; for any other
  manifest it leaves the reference parameter and the state of the process alone.
\<close>

lemma ReadDriverJson_returned:
  assumes "ReadDriverJson w st file fl = Inr (returned, fl', rows, st')"
  shows "returned = has_icd w file" and "\<not> returned \<Longrightarrow> fl' = fl \<and> st' = st"
  using assms unfolding ReadDriverJson_def has_icd_def andthen_def
  by (auto split: json_stream.splits sum.splits if_splits)

lemma FindLinuxSystemObject_environ:
  "v \<noteq> ''LD_LIBRARY_PATH'' \<Longrightarrow>
     environ (snd (snd (FindLinuxSystemObject st n f c))) v = environ st v"
  by (auto simp: FindLinuxSystemObject_def tokenised_def split: prod.splits option.splits)

lemma locate_library_environ:
  assumes "locate_library w st file n fl = Inr (fl', rows, st')" and "v \<noteq> ''LD_LIBRARY_PATH''"
  shows "environ st' v = environ st v"
  using assms FindLinuxSystemObject_environ [of v st n "CheckDriver w" True]
  unfolding locate_library_def andthen_def Let_def
  by (auto split: sum.splits option.splits if_splits prod.splits pipe.splits)

lemma ReadDriverJson_environ:
  assumes "ReadDriverJson w st file fl = Inr (returned, fl', rows, st')"
    and "v \<noteq> ''LD_LIBRARY_PATH''"
  shows "environ st' v = environ st v"
  using assms unfolding ReadDriverJson_def andthen_def
  by (auto split: json_stream.splits sum.splits if_splits dest: locate_library_environ)

lemma read_and_count_found_json:
  assumes "read_and_count w file s = Inr (rows, s')"
  shows "found_json s' = (found_json s \<or> has_icd w file)"
    and "\<not> has_icd w file \<Longrightarrow> proc s' = proc s"
    and "v \<noteq> ''LD_LIBRARY_PATH'' \<Longrightarrow> environ (proc s') v = environ (proc s) v"
  using assms unfolding read_and_count_def Let_def
  by (auto split: sum.splits prod.splits if_splits
           dest: ReadDriverJson_returned ReadDriverJson_environ)

subsection \<open>The flag \<^verbatim>\<open>found_json\<close> along the loops\<close>

lemma driver_entries_found_json:
  "driver_entries w folder entries i s = Inr (rows, s') \<Longrightarrow>
     found_json s' =
       (found_json s \<or> (\<exists>d \<in> set entries. strstr d ''.json''
                           \<and> has_icd w (snprintf (folder @ ''/'' @ d))))
     \<and> environ (proc s') ''VK_ICD_FILENAMES'' = environ (proc s) ''VK_ICD_FILENAMES''"
proof (induction entries arbitrary: i s rows)
  case Nil
  then show ?case by simp
next
  case (Cons d rest)
  show ?case
  proof (cases "strstr d ''.json''")
    case False
    with Cons.prems have "driver_entries w folder rest i s = Inr (rows, s')" by simp
    from Cons.IH [OF this] False show ?thesis by auto
  next
    case True
    with Cons.prems obtain rows1 s1 rows2
      where a: "read_and_count w (snprintf (folder @ ''/'' @ d)) s = Inr (rows1, s1)"
        and b: "driver_entries w folder rest (i + 1) s1 = Inr (rows2, s')"
      by (auto simp: Let_def split: sum.splits prod.splits)
    from read_and_count_found_json(1) [OF a]
      read_and_count_found_json(3) [OF a, of "''VK_ICD_FILENAMES''"]
      Cons.IH [OF b] True
    show ?thesis by auto
  qed
qed

lemma folder_candidates_has_icd:
  "(\<exists>f \<in> set (folder_candidates w path). P f) =
     (case opendir w path of
        None \<Rightarrow> False
      | Some entries \<Rightarrow>
          (\<exists>d \<in> set entries. strstr d ''.json'' \<and> P (snprintf (path @ ''/'' @ d))))"
  by (auto simp: folder_candidates_def split: option.splits)

lemma driver_folders_found_json:
  "driver_folders w shown index dir paths s = Inr (rows, s') \<Longrightarrow>
     found_json s' =
       (found_json s \<or> (\<exists>f \<in> set (concat (map (folder_candidates w) paths)). has_icd w f))
     \<and> environ (proc s') ''VK_ICD_FILENAMES'' = environ (proc s) ''VK_ICD_FILENAMES''"
proof (induction paths arbitrary: dir s rows)
  case Nil
  then show ?case by simp
next
  case (Cons path rest)
  have split: "(\<exists>f \<in> set (concat (map (folder_candidates w) (path # rest))). has_icd w f) =
      ((\<exists>f \<in> set (folder_candidates w path). has_icd w f)
       \<or> (\<exists>f \<in> set (concat (map (folder_candidates w) rest)). has_icd w f))"
    by auto
  show ?case
  proof (cases "opendir w path")
    case None
    with Cons.prems obtain rows2
      where "driver_folders w shown index (dir + 1) rest s = Inr (rows2, s')"
      by (auto simp: Let_def split: sum.splits prod.splits)
    from Cons.IH [OF this] show ?thesis
      unfolding split folder_candidates_has_icd None by simp
  next
    case (Some entries)
    with Cons.prems obtain rows1 s1 rows2
      where a: "driver_entries w path entries 0 s = Inr (rows1, s1)"
        and b: "driver_folders w shown index (dir + 1) rest s1 = Inr (rows2, s')"
      by (auto simp: Let_def split: sum.splits prod.splits)
    from driver_entries_found_json [OF a] Cons.IH [OF b] show ?thesis
      unfolding split folder_candidates_has_icd Some by auto
  qed
qed

lemma icd_file_found_json:
  assumes "icd_file w tok s = Inr (rows, s')"
  shows "found_json s' = (found_json s \<or> (access_R_OK w tok \<and> has_icd w tok))"
    and "\<not> (access_R_OK w tok \<and> has_icd w tok) \<Longrightarrow> proc s' = proc s"
  using assms unfolding icd_file_def
  by (auto split: sum.splits prod.splits if_splits dest: read_and_count_found_json)

lemma all_tokens_unfold:
  "all_tokens buf =
     (case strtok_from buf of (None, rest) \<Rightarrow> [] | (Some tok, rest) \<Rightarrow> tok # all_tokens rest)"
  by (rule all_tokens.simps)

text \<open>
  A call of \<^verbatim>\<open>ReadDriverJson\<close> that moves the pointer of \<^verbatim>\<open>strtok\<close> has found a manifest
  that counts, so the first manifest that counts among the files of \<^verbatim>\<open>VK_ICD_FILENAMES\<close>
  is always reached.
\<close>

lemma icd_loop_found_json:
  "icd_loop w tok s = Inr (rows, s') \<Longrightarrow>
     found_json s' =
       (found_json s \<or> (\<exists>t \<in> set (tok # all_tokens (olds (proc s))).
                           access_R_OK w t \<and> has_icd w t))"
proof (induction w tok s arbitrary: rows s' rule: icd_loop.induct)
  case (1 w tok s)
  from "1.prems" obtain rows1 s1 where f: "icd_file w tok s = Inr (rows1, s1)"
    by (subst (asm) icd_loop.simps) (auto split: sum.splits)
  obtain x rest where st: "strtok_from (olds (proc s1)) = (x, rest)"
    by (cases "strtok_from (olds (proc s1))")
  let ?s2 = "s1\<lparr>proc := (proc s1)\<lparr>olds := rest\<rparr>\<rparr>"
  have tail: "found_json s' =
      (found_json s1 \<or> (\<exists>t \<in> set (all_tokens (olds (proc s1))).
                           access_R_OK w t \<and> has_icd w t))"
  proof (cases x)
    case None
    with "1.prems" f st have "s' = ?s2"
      by (subst (asm) icd_loop.simps) auto
    moreover from None st have "all_tokens (olds (proc s1)) = []"
      by (subst all_tokens_unfold) simp
    ultimately show ?thesis by simp
  next
    case (Some next_tok)
    with "1.prems" f st obtain rows2 where r: "icd_loop w next_tok ?s2 = Inr (rows2, s')"
      by (subst (asm) icd_loop.simps) (auto split: sum.splits)
    have "found_json s' =
        (found_json ?s2 \<or> (\<exists>t \<in> set (next_tok # all_tokens (olds (proc ?s2))).
                             access_R_OK w t \<and> has_icd w t))"
      using "1.IH" [OF f refl st [symmetric] Some r] .
    moreover from Some st have "all_tokens (olds (proc s1)) = next_tok # all_tokens rest"
      by (subst all_tokens_unfold) simp
    ultimately show ?thesis by simp
  qed
  show ?case
  proof (cases "access_R_OK w tok \<and> has_icd w tok")
    case True
    with icd_file_found_json(1) [OF f] have "found_json s1" by simp
    with tail True show ?thesis by simp
  next
    case False
    with icd_file_found_json [OF f] have "found_json s1 = found_json s" and "proc s1 = proc s"
      by auto
    with tail False show ?thesis by auto
  qed
qed

lemma icd_filenames_found_json:
  assumes "icd_filenames w s = Inr (rows, s')"
  shows "found_json s' =
           (found_json s \<or> (\<exists>t \<in> set (icd_candidates w (environ (proc s))). has_icd w t))"
proof (cases "environ (proc s) ''VK_ICD_FILENAMES''")
  case None
  with assms show ?thesis
    by (simp add: icd_filenames_def icd_candidates_def)
next
  case (Some v)
  obtain x rest where st: "strtok_from v = (x, rest)"
    by (cases "strtok_from v")
  show ?thesis
  proof (cases x)
    case None
    with st have empty: "all_tokens v = []"
      by (subst all_tokens_unfold) simp
    from assms Some st None obtain rows1
      where "icd_file w v (s\<lparr>proc := (proc s)\<lparr>olds := rest\<rparr>\<rparr>) = Inr (rows1, s')"
      by (auto simp: icd_filenames_def split: sum.splits)
    from icd_file_found_json(1) [OF this] Some empty show ?thesis
      by (auto simp: icd_candidates_def)
  next
    case (Some tok)
    with st have toks: "all_tokens v = tok # all_tokens rest"
      by (subst all_tokens_unfold) simp
    from assms \<open>environ (proc s) ''VK_ICD_FILENAMES'' = Some v\<close> st Some obtain rows1
      where "icd_loop w tok
               (s\<lparr>proc := (proc s)
                    \<lparr>environ := (environ (proc s))(''VK_ICD_FILENAMES'' \<mapsto> after_strtok v),
                     olds := rest\<rparr>\<rparr>) = Inr (rows1, s')"
      by (auto simp: icd_filenames_def split: sum.splits)
    from icd_loop_found_json [OF this] \<open>environ (proc s) ''VK_ICD_FILENAMES'' = Some v\<close> toks
    show ?thesis
      by (auto simp: icd_candidates_def)
  qed
qed

lemma tokenised_other:
  "v \<noteq> variable \<Longrightarrow> environ (tokenised variable st) v = environ st v"
  by (simp add: tokenised_def split: option.splits)

lemma PrintDriverInfo_run:
  assumes "PrintDriverInfo w st = Inr (res, out, st')"
  obtains shown index folder_rows s1 icd_rows s2
  where "driver_folders w shown index 0
           (standard_driver_paths (environ st) @ override_driver_paths (environ st))
           \<lparr>found_json = False, found_lib = False, found_this_lib = False,
            proc = tokenised ''VK_DRIVERS_PATH'' st\<rparr> = Inr (folder_rows, s1)"
    and "icd_filenames w s1 = Inr (icd_rows, s2)"
    and "res = (if \<not> found_json s2 then MISSING_DRIVER_JSON
                else if \<not> found_lib s2 then MISSING_DRIVER_LIB else SUCCESSFUL)"
    and "out = BeginTable ''Vulkan Driver Info'' 3 # folder_rows @ icd_rows @ [EndTable]"
    and "st' = proc s2"
  using assms unfolding PrintDriverInfo_def Let_def
  by (auto split: sum.splits prod.splits)

text \<open>
  The verdict is \<^verbatim>\<open>MISSING_DRIVER_JSON\<close> exactly when no candidate is a manifest that
  counts.
\<close>

lemma PrintDriverInfo_missing_json:
  assumes "PrintDriverInfo w st = Inr (res, out, st')"
  shows "(res = MISSING_DRIVER_JSON) =
           (\<not> (\<exists>f \<in> set (driver_candidates w (environ st)). has_icd w f))"
proof -
  from assms obtain shown index folder_rows s1 icd_rows s2
    where a: "driver_folders w shown index 0
           (standard_driver_paths (environ st) @ override_driver_paths (environ st))
           \<lparr>found_json = False, found_lib = False, found_this_lib = False,
            proc = tokenised ''VK_DRIVERS_PATH'' st\<rparr> = Inr (folder_rows, s1)"
      and b: "icd_filenames w s1 = Inr (icd_rows, s2)"
      and c: "res = (if \<not> found_json s2 then MISSING_DRIVER_JSON
                else if \<not> found_lib s2 then MISSING_DRIVER_LIB else SUCCESSFUL)"
      and "out = BeginTable ''Vulkan Driver Info'' 3 # folder_rows @ icd_rows @ [EndTable]"
      and "st' = proc s2"
    by (rule PrintDriverInfo_run)
  from driver_folders_found_json [OF a]
  have f1: "found_json s1 =
      (\<exists>f \<in> set (concat (map (folder_candidates w)
         (standard_driver_paths (environ st) @ override_driver_paths (environ st)))). has_icd w f)"
    and e1: "environ (proc s1) ''VK_ICD_FILENAMES'' = environ st ''VK_ICD_FILENAMES''"
    by (simp_all add: tokenised_other)
  from e1 have "icd_candidates w (environ (proc s1)) = icd_candidates w (environ st)"
    by (simp add: icd_candidates_def)
  with icd_filenames_found_json [OF b] f1
  have "found_json s2 = (\<exists>f \<in> set (driver_candidates w (environ st)). has_icd w f)"
    unfolding driver_candidates_def by auto
  with c show ?thesis by (auto split: if_splits)
qed

subsection \<open>The flag \<^verbatim>\<open>found_lib\<close> when \<^verbatim>\<open>LD_LIBRARY_PATH\<close> is not set\<close>













subsection \<open>The claims on the driver category\<close>

lemma outcome_run:
  assumes "outcome run = Inr (res, out)"
  obtains st where "run = Inr (res, out, st)"
  using assms unfolding outcome_def by (auto split: sum.splits)

text \<open>
  Claim C3, as stated, fails.  On a system whose only driver manifest is a well-formed
  document without the section \<^verbatim>\<open>ICD\<close>, the table shows the row \<^verbatim>\<open>ICD Section\<close>,
  \<^verbatim>\<open>MISSING!\<close> for the manifest, but the manifest is not counted as found: the function
  returns \<^verbatim>\<open>MISSING_DRIVER_JSON\<close>, not \<^verbatim>\<open>MISSING_DRIVER_LIB\<close>.
\<close>

theorem manifest_without_icd_counterexample:
  "outcome (PrintDriverInfo world_without_icd start) =
     Inr (MISSING_DRIVER_JSON,
          single_folder_table
            [Row [el '''', el ''JSON File Version'', el ''1.0.0''],
             Row [el '''', el ''ICD Section'', el ''MISSING!'']])"
  by code_simp

text \<open>
  Claim C3, amended.  A driver manifest that parses to a document without the section
  \<^verbatim>\<open>ICD\<close> is reported with the row \<^verbatim>\<open>ICD Section\<close>, \<^verbatim>\<open>MISSING!\<close> behind the row of its
  file version; \<^verbatim>\<open>ReadDriverJson\<close> returns \<^verbatim>\<open>false\<close> for it and changes neither the flag of
  the library nor the state of the process, so that the manifest does not count as found:
  every run whose only candidate is that manifest returns \<^verbatim>\<open>MISSING_DRIVER_JSON\<close>.
\<close>

theorem manifest_without_icd_not_counted:
  assumes "json_ifstream w (c_str file) = Parsed root"
    and "\<not> isNull root"
    and "member root ''ICD'' = Inr JNull"
    and "member root ''file_format_version'' = Inr v"
    and "text_or_missing v = Inr version_text"
  shows "ReadDriverJson w st file fl =
           Inr (False, fl,
                [Row [el '''', el ''JSON File Version'', el version_text],
                 Row [el '''', el ''ICD Section'', el ''MISSING!'']], st)
         \<and> (\<forall>st0 res out st'.
               PrintDriverInfo w st0 = Inr (res, out, st')
               \<and> set (driver_candidates w (environ st0)) \<subseteq> {file}
               \<longrightarrow> res = MISSING_DRIVER_JSON)"
proof
  show "ReadDriverJson w st file fl =
           Inr (False, fl,
                [Row [el '''', el ''JSON File Version'', el version_text],
                 Row [el '''', el ''ICD Section'', el ''MISSING!'']], st)"
    using assms by (simp add: ReadDriverJson_def andthen_def isNull_def)
  have no: "\<not> has_icd w file"
    using assms(1,2,3) by (simp add: has_icd_def isNull_def)
  show "\<forall>st0 res out st'.
               PrintDriverInfo w st0 = Inr (res, out, st')
               \<and> set (driver_candidates w (environ st0)) \<subseteq> {file}
               \<longrightarrow> res = MISSING_DRIVER_JSON"
  proof (intro allI impI)
    fix st0 res out st'
    assume a: "PrintDriverInfo w st0 = Inr (res, out, st')
               \<and> set (driver_candidates w (environ st0)) \<subseteq> {file}"
    then have "\<not> (\<exists>f \<in> set (driver_candidates w (environ st0)). has_icd w f)"
      using no by auto
    with a show "res = MISSING_DRIVER_JSON"
      using PrintDriverInfo_missing_json by blast
  qed
qed

theorem manifest_without_icd_not_counted_witness:
  "ReadDriverJson world_without_icd start ''/etc/vulkan/icd.d/a.json'' False =
     Inr (False, False,
          [Row [el '''', el ''JSON File Version'', el ''1.0.0''],
           Row [el '''', el ''ICD Section'', el ''MISSING!'']], start)
   \<and> set (driver_candidates world_without_icd (environ start)) \<subseteq> {''/etc/vulkan/icd.d/a.json''}
   \<and> (\<exists>out st'. PrintDriverInfo world_without_icd start = Inr (MISSING_DRIVER_JSON, out, st'))"
proof -
  let ?file = "''/etc/vulkan/icd.d/a.json''"
  have h1: "json_ifstream world_without_icd (c_str ?file) = Parsed manifest_without_icd"
    by code_simp
  have h2: "\<not> isNull manifest_without_icd"
    by code_simp
  have h3: "member manifest_without_icd ''ICD'' = Inr JNull"
    by code_simp
  have h4: "member manifest_without_icd ''file_format_version'' = Inr (JString ''1.0.0'')"
    by code_simp
  have h5: "text_or_missing (JString ''1.0.0'') = Inr ''1.0.0''"
    by code_simp
  note t = manifest_without_icd_not_counted [OF h1 h2 h3 h4 h5, of start False]
  have c: "set (driver_candidates world_without_icd (environ start)) \<subseteq> {?file}"
    by code_simp
  have "outcome (PrintDriverInfo world_without_icd start) =
     Inr (MISSING_DRIVER_JSON,
          single_folder_table
            [Row [el '''', el ''JSON File Version'', el ''1.0.0''],
             Row [el '''', el ''ICD Section'', el ''MISSING!'']])"
    by code_simp
  then obtain st' where "PrintDriverInfo world_without_icd start =
     Inr (MISSING_DRIVER_JSON,
          single_folder_table
            [Row [el '''', el ''JSON File Version'', el ''1.0.0''],
             Row [el '''', el ''ICD Section'', el ''MISSING!'']], st')"
    by (rule outcome_run)
  with t c show ?thesis by blast
qed




section \<open>Properties of the discovery of layers\<close>




section \<open>Properties of the result of the run\<close>

text \<open>
  Whatever the drivers, runtimes, SDKs and layers are, \<^verbatim>\<open>PrintSystemInfo\<close> returns the
  value of \<^verbatim>\<open>PrintLayerSettingsFileInfo\<close>, which is \<^verbatim>\<open>SUCCESSFUL\<close>.
\<close>

lemma PrintSystemInfo_SUCCESSFUL:
  "PrintSystemInfo w st res0 runtime sdk = Inr (res, out, st') \<Longrightarrow> res = SUCCESSFUL"
  unfolding PrintSystemInfo_def PrintLayerSettingsFileInfo_def Let_def
  by (auto split: sum.splits prod.splits)

text \<open>
  Claim C4.  The claim says that the exit status is the worst verdict of the categories and
  that a failure of the driver category is never masked by a later pass.  On a system
  without any driver manifest \<^verbatim>\<open>PrintDriverInfo\<close> returns \<^verbatim>\<open>MISSING_DRIVER_JSON\<close>;
  \<^verbatim>\<open>PrintSystemInfo\<close> then overwrites this value with the results of the later passes, and
  when the API calls and the tests succeed \<^verbatim>\<open>main\<close> exits with status 0.
\<close>

theorem driver_failure_masked:
  "outcome (PrintDriverInfo empty_world start) =
     Inr (MISSING_DRIVER_JSON,
          [BeginTable ''Vulkan Driver Info'' 3,
           Row [el ''Standard Paths'', el '''', el ''''],
           Row [er ''/etc/vulkan/icd.d'', el ''No such folder'', el ''''],
           Row [er ''/usr/share/vulkan/icd.d'', el ''No such folder'', el ''''],
           Row [er ''/usr/local/etc/vulkan/icd.d'', el ''No such folder'', el ''''],
           Row [er ''/usr/local/share/vulkan/icd.d'', el ''No such folder'', el ''''],
           Row [er ''~/.local/share/vulkan/icd.d'', el ''No such folder'', el ''''],
           EndTable])
   \<and> main empty_world start SUCCESSFUL prints_nothing prints_nothing SUCCESSFUL SUCCESSFUL
       = Inr 0"
  by code_simp

end
